theory Spec2Isabelle
  imports Complex_Main "HOL-Library.Multiset"
begin

section \<open>Python values used by \<open>train1.py\<close>\<close>

text \<open>
  A Python \<open>str\<close> is a sequence of Unicode code points; the input files hold Chinese
  text, so a string is embedded as the list of its code points (\<open>nat\<close>), not as a list
  of 8-bit characters. An uncaught exception is the \<open>Inl\<close> branch of a sum.
\<close>

type_synonym str = "nat list"

datatype py_error =
  IndexError | ValueError | TypeError | RuntimeError | AssertionError | ZeroDivisionError

definition TAB :: nat where
  "TAB = 9"

text \<open>
  \<open>xs[i]\<close> on a Python list: a negative index counts from the end, and an index out of
  range raises \<open>IndexError\<close>.
\<close>

definition py_index :: "'a list \<Rightarrow> int \<Rightarrow> py_error + 'a" where
  "py_index xs i =
     (if 0 \<le> i \<and> i < int (length xs) then Inr (xs ! nat i)
      else if i < 0 \<and> - int (length xs) \<le> i then Inr (xs ! nat (int (length xs) + i))
      else Inl IndexError)"

text \<open>
  \<open>line.split(sep)\<close> with an explicit one-character separator: the fields between the
  occurrences of \<open>sep\<close>, empty fields kept, so the result is never empty.
\<close>

fun py_split :: "nat \<Rightarrow> str \<Rightarrow> str list" where
  "py_split sep [] = [[]]"
| "py_split sep (c # cs) =
     (if c = sep then [] # py_split sep cs
      else (case py_split sep cs of
              [] \<Rightarrow> [[c]]
            | field # fields \<Rightarrow> (c # field) # fields))"

section \<open>Ingestion: \<open>convert_to_text_label\<close>\<close>

text \<open>
  \<^verbatim>\<open>
  def convert_to_text_label(filename:str):
      with open(filename) as fs:
          text = []
          label = []
          lines = fs.readlines()
          for line in lines:
              split_cnt = line.split('\t')
              text.append(split_cnt[0])
              label.append(int(split_cnt[1]))
      return text,label
  \<close>
  The model starts from the list \<open>lines\<close> that \<open>readlines\<close> returns (each line with its
  terminator). The built-in \<open>int\<close> on a string is the parameter \<open>py_int\<close>: \<open>None\<close> is
  its \<open>ValueError\<close>. The loop is the recursion \<open>convert_loop\<close> over the two
  accumulators \<open>text\<close> and \<open>label\<close>; the body evaluates \<open>split_cnt[0]\<close>, then
  \<open>split_cnt[1]\<close>, then \<open>int\<close>, in the order of the source.
\<close>

fun convert_loop ::
  "(str \<Rightarrow> int option) \<Rightarrow> str list \<Rightarrow> str list \<Rightarrow> int list \<Rightarrow> py_error + (str list \<times> int list)"
where
  "convert_loop py_int [] text label = Inr (text, label)"
| "convert_loop py_int (line # lines) text label =
     (let split_cnt = py_split TAB line in
      case py_index split_cnt 0 of
        Inl e \<Rightarrow> Inl e
      | Inr t \<Rightarrow>
          (case py_index split_cnt 1 of
             Inl e \<Rightarrow> Inl e
           | Inr f \<Rightarrow>
               (case py_int f of
                  None \<Rightarrow> Inl ValueError
                | Some v \<Rightarrow> convert_loop py_int lines (text @ [t]) (label @ [v]))))"

definition convert_to_text_label ::
  "(str \<Rightarrow> int option) \<Rightarrow> str list \<Rightarrow> py_error + (str list \<times> int list)"
where
  "convert_to_text_label py_int lines = convert_loop py_int lines [] []"

text \<open>The two fields of a line that the loop reads, written without \<open>split\<close>.\<close>

definition text_field :: "str \<Rightarrow> str" where
  "text_field line = takeWhile (\<lambda>c. c \<noteq> TAB) line"

definition label_field :: "str \<Rightarrow> str" where
  "label_field line = takeWhile (\<lambda>c. c \<noteq> TAB) (tl (dropWhile (\<lambda>c. c \<noteq> TAB) line))"

definition well_formed_line :: "(str \<Rightarrow> int option) \<Rightarrow> str \<Rightarrow> bool" where
  "well_formed_line py_int line = (TAB \<in> set line \<and> py_int (label_field line) \<noteq> None)"

text \<open>
  An instance of the parameter for concrete runs: \<open>int\<close> on plain ASCII decimal literals
  (optional surrounding ASCII whitespace, optional sign, at least one digit).
\<close>

definition ascii_space :: "nat \<Rightarrow> bool" where
  "ascii_space c = (c \<in> {9, 10, 11, 12, 13, 28, 29, 30, 31, 32})"

definition ascii_strip :: "str \<Rightarrow> str" where
  "ascii_strip s = rev (dropWhile ascii_space (rev (dropWhile ascii_space s)))"

fun ascii_digits :: "str \<Rightarrow> nat \<Rightarrow> nat option" where
  "ascii_digits [] acc = Some acc"
| "ascii_digits (c # cs) acc =
     (if 48 \<le> c \<and> c \<le> 57 then ascii_digits cs (10 * acc + (c - 48)) else None)"

definition ascii_int :: "str \<Rightarrow> int option" where
  "ascii_int s =
     (case ascii_strip s of
        [] \<Rightarrow> None
      | c # cs \<Rightarrow>
          if c = 45 then (if cs = [] then None else map_option (\<lambda>n. - int n) (ascii_digits cs 0))
          else if c = 43 then (if cs = [] then None else map_option int (ascii_digits cs 0))
          else map_option int (ascii_digits (c # cs) 0))"

section \<open>Label normalization in the script\<close>

text \<open>
  \<^verbatim>\<open>
  train_texts = []
  train_labels = []
  new_text,new_label = convert_to_text_label("./myBERT/train.txt")
  train_texts.extend(new_text)
  train_labels.extend(new_label)
  new_text,new_label = convert_to_text_label("./myBERT/dev.txt")
  train_texts.extend(new_text)
  train_labels.extend(new_label)
  train_labels = [int(ids)-2 for ids in train_labels]
  ...
  test_texts,test_labels = convert_to_text_label("./myBERT/test.txt")
  ...
  test_labels = [int(ids)-2 for ids in test_labels]
  \<close>
  \<open>int(ids)\<close> on a value that is already an \<open>int\<close> is the value itself.
\<close>

definition normalize_labels :: "int list \<Rightarrow> int list" where
  "normalize_labels labels = map (\<lambda>ids. ids - 2) labels"

record ingested =
  train_texts :: "str list"
  train_labels :: "int list"
  test_texts :: "str list"
  test_labels :: "int list"

definition ingest ::
  "(str \<Rightarrow> int option) \<Rightarrow> str list \<Rightarrow> str list \<Rightarrow> str list \<Rightarrow> py_error + ingested"
where
  "ingest py_int train_txt dev_txt test_txt =
     (case convert_to_text_label py_int train_txt of
        Inl e \<Rightarrow> Inl e
      | Inr (new_text, new_label) \<Rightarrow>
          (case convert_to_text_label py_int dev_txt of
             Inl e \<Rightarrow> Inl e
           | Inr (new_text', new_label') \<Rightarrow>
               (case convert_to_text_label py_int test_txt of
                  Inl e \<Rightarrow> Inl e
                | Inr (tst_text, tst_label) \<Rightarrow>
                    Inr \<lparr> train_texts = ([] @ new_text) @ new_text',
                          train_labels = normalize_labels (([] @ new_label) @ new_label'),
                          test_texts = tst_text,
                          test_labels = normalize_labels tst_label \<rparr>)))"

text \<open>
  What one iteration of the loop reads from a line, as one value: the error it raises, or
  the text and the label it appends. A proof device; \<open>convert_loop_Cons\<close> shows that the
  loop body computes exactly this.
\<close>

definition line_fields :: "(str \<Rightarrow> int option) \<Rightarrow> str \<Rightarrow> py_error + (str \<times> int)" where
  "line_fields py_int line =
     (if TAB \<in> set line
      then (case py_int (label_field line) of
              None \<Rightarrow> Inl ValueError
            | Some v \<Rightarrow> Inr (text_field line, v))
      else Inl IndexError)"

section \<open>Tensors and the layers of the classifier\<close>

text \<open>
  A tensor is a nested list of reals: the claims below are about shapes, batch order and
  the control flow of the script, none about rounding. A 2-D tensor of shape \<open>(B, n)\<close>
  is a list of \<open>B\<close> rows of length \<open>n\<close>.
\<close>

type_synonym vec = "real list"
type_synonym mat = "real list list"
type_synonym tensor3 = "real list list list"

text \<open>\<open>torch.cat((a, b), dim=1)\<close> on two 2-D tensors: the row counts must agree.\<close>

definition cat_dim1 :: "mat \<Rightarrow> mat \<Rightarrow> py_error + mat" where
  "cat_dim1 a b = (if length a = length b then Inr (map2 (@) a b) else Inl RuntimeError)"

text \<open>
  \<open>nn.Dropout(p)\<close>: the identity in evaluation mode; in training mode the entry at
  \<open>(i, j)\<close> is kept and scaled by \<open>1 / (1 - p)\<close> when the Bernoulli draw \<open>keep i j\<close> holds,
  and zeroed otherwise.
\<close>

definition dropout :: "real \<Rightarrow> bool \<Rightarrow> (nat \<Rightarrow> nat \<Rightarrow> bool) \<Rightarrow> mat \<Rightarrow> mat" where
  "dropout p training keep x =
     (if training
      then map (\<lambda>(i, row). map (\<lambda>(j, v). if keep i j then v / (1 - p) else 0) (enumerate 0 row))
             (enumerate 0 x)
      else x)"

text \<open>
  \<open>nn.Linear(in_features, out_features)\<close>: \<open>weight\<close> has \<open>out_features\<close> rows of length
  \<open>in_features\<close>; applied to a row \<open>x\<close> it yields \<open>x W\<^sup>T + b\<close>, and a row of another
  length is a shape error.
\<close>

record Linear =
  weight :: mat
  bias :: vec

definition dot :: "vec \<Rightarrow> vec \<Rightarrow> real" where
  "dot u v = sum_list (map2 (*) u v)"

definition linear :: "Linear \<Rightarrow> mat \<Rightarrow> py_error + mat" where
  "linear L x =
     (if list_all (\<lambda>row. list_all (\<lambda>w. length w = length row) (weight L)) x
      then Inr (map (\<lambda>row. map2 (\<lambda>w b. dot w row + b) (weight L) (bias L)) x)
      else Inl RuntimeError)"

text \<open>
  \<open>logits.argmax(1)\<close> and \<open>torch.max(outputs, dim=1)\<close>: the index of a largest entry
  of each row (the first one here); a row of length 0 cannot be reduced.
\<close>

fun argmax_from :: "nat \<Rightarrow> real \<Rightarrow> nat \<Rightarrow> real list \<Rightarrow> nat" where
  "argmax_from best bv i [] = best"
| "argmax_from best bv i (v # vs) =
     (if bv < v then argmax_from i v (Suc i) vs else argmax_from best bv (Suc i) vs)"

definition argmax_rows :: "mat \<Rightarrow> py_error + int list" where
  "argmax_rows m =
     (if list_ex (\<lambda>row. row = []) m then Inl IndexError
      else Inr (map (\<lambda>row. int (argmax_from 0 (hd row) 1 (tl row))) m))"

section \<open>Batches and data loaders\<close>

text \<open>
  An encoded example is a row of token ids, a row of mask bits and a label.
  \<open>TensorDataset\<close> pairs the rows of three tensors whose first dimensions must agree.
\<close>

type_synonym example = "int list \<times> int list \<times> int"

datatype sampler = RandomSampler | SequentialSampler

record DataLoader =
  dataset :: "example list"
  sampler :: sampler
  batch_size :: nat

record batch =
  batch_input_ids :: "int list list"
  batch_attention_mask :: "int list list"
  batch_labels :: "int list"

definition TensorDataset ::
  "int list list \<Rightarrow> int list list \<Rightarrow> int list \<Rightarrow> py_error + example list"
where
  "TensorDataset ids masks labels =
     (if length ids = length masks \<and> length masks = length labels
      then Inr (zip ids (zip masks labels)) else Inl AssertionError)"

definition collate :: "example list \<Rightarrow> batch" where
  "collate exs =
     \<lparr>batch_input_ids = map fst exs, batch_attention_mask = map (\<lambda>e. fst (snd e)) exs,
      batch_labels = map (\<lambda>e. snd (snd e)) exs\<rparr>"

text \<open>
  The order in which a sampler yields the indices \<open>0..<n\<close>. \<open>SequentialSampler\<close> yields
  them in order. \<open>RandomSampler\<close> yields a random permutation, drawn anew at every
  iteration of the loader: the draw is the parameter \<open>key\<close>, random sort keys for the
  indices, so that every draw is a permutation and every permutation is some draw.
\<close>

definition sample_order :: "sampler \<Rightarrow> nat \<Rightarrow> (nat \<Rightarrow> nat) \<Rightarrow> nat list" where
  "sample_order s n key =
     (case s of SequentialSampler \<Rightarrow> [0..<n] | RandomSampler \<Rightarrow> sort_key key [0..<n])"

function chunks :: "nat \<Rightarrow> 'a list \<Rightarrow> 'a list list" where
  "chunks n xs = (if n = 0 \<or> xs = [] then [] else take n xs # chunks n (drop n xs))"
  by pat_completeness auto
termination
  by (relation "measure (\<lambda>(n, xs). length xs)") auto

declare chunks.simps [simp del]

definition iter_batches :: "DataLoader \<Rightarrow> (nat \<Rightarrow> nat) \<Rightarrow> batch list" where
  "iter_batches dl key =
     map (\<lambda>idx. collate (map (\<lambda>i. dataset dl ! i) idx))
       (chunks (batch_size dl) (sample_order (sampler dl) (length (dataset dl)) key))"

text \<open>\<open>len(dataloader)\<close>: the number of batches, the last one possibly smaller.\<close>

definition len_loader :: "DataLoader \<Rightarrow> nat" where
  "len_loader dl = (length (dataset dl) + batch_size dl - 1) div batch_size dl"

section \<open>The sequence classifier \<open>BERTBiLSTM\<close>\<close>

text \<open>
  \<^verbatim>\<open>
  class BERTBiLSTM(nn.Module):
      def __init__(self, bert_path, num_labels, hidden_size, lstm_hidden_size):
          super(BERTBiLSTM, self).__init__()
          self.bert = BertModel.from_pretrained(bert_path)
          self.lstm = nn.LSTM(self.bert.config.hidden_size, lstm_hidden_size, num_layers=1,
                              batch_first=True, bidirectional=True)
          self.dropout = nn.Dropout(0.1)
          self.classifier = nn.Linear(2*lstm_hidden_size, num_labels)
  \<close>
  The module owns the encoder's weights (type \<open>'bw\<close>), the recurrent layer's weights
  (\<open>'lw\<close>) and the linear head, and the flag \<open>training\<close> of \<open>nn.Module\<close> that
  \<open>model.train()\<close> and \<open>model.eval()\<close> set. The pretrained weights (what \<open>bert_path\<close>
  names) and the random initial values of the other layers are arguments of the
  constructor; \<open>hidden_size\<close> is not used by the source either.
\<close>

record ('bw, 'lw) BERTBiLSTM =
  bert :: 'bw
  lstm :: 'lw
  classifier :: Linear
  training :: bool

definition BERTBiLSTM_init ::
  "'bw \<Rightarrow> nat \<Rightarrow> nat \<Rightarrow> nat \<Rightarrow> 'lw \<Rightarrow> (nat \<Rightarrow> nat \<Rightarrow> real) \<Rightarrow> (nat \<Rightarrow> real) \<Rightarrow> ('bw, 'lw) BERTBiLSTM"
where
  "BERTBiLSTM_init pretrained num_labels hidden_size lstm_hidden_size lstm0 w0 b0 =
     \<lparr>bert = pretrained, lstm = lstm0,
      classifier =
        \<lparr>weight = map (\<lambda>j. map (w0 j) [0..<2 * lstm_hidden_size]) [0..<num_labels],
         bias = map b0 [0..<num_labels]\<rparr>,
      training = True\<rparr>"

text \<open>\<open>model.parameters()\<close>: everything an optimizer may update.\<close>

definition parameters :: "('bw, 'lw) BERTBiLSTM \<Rightarrow> 'bw \<times> 'lw \<times> Linear" where
  "parameters m = (bert m, lstm m, classifier m)"

text \<open>
  The random numbers one forward pass in training mode consumes: the encoder's own
  dropout noise and the Bernoulli draws of \<open>self.dropout\<close>.
\<close>

record 'r draw =
  bert_noise :: 'r
  keep :: "nat \<Rightarrow> nat \<Rightarrow> bool"

text \<open>
  The numeric kernels of the libraries, which the script calls and does not define, are
  parameters: the pretrained encoder (it gets noise in training mode only and returns the
  per-token states \<open>last_hidden_state\<close>), the recurrent layer (it returns
  \<open>(output, (h_n, c_n))\<close>), the loss \<open>nn.CrossEntropyLoss()\<close>, the gradient that
  \<open>loss.backward()\<close> adds to the stored gradient, the update rule of
  \<open>torch.optim.AdamW\<close> and \<open>sklearn.metrics.f1_score(..., average='weighted')\<close>.
\<close>

record ('bw, 'lw, 'r, 'o, 'g) torch =
  bert_forward :: "'bw \<Rightarrow> 'r option \<Rightarrow> int list list \<Rightarrow> int list list \<Rightarrow> py_error + tensor3"
  lstm_forward :: "'lw \<Rightarrow> tensor3 \<Rightarrow> py_error + (tensor3 \<times> mat list \<times> mat list)"
  criterion :: "mat \<Rightarrow> int list \<Rightarrow> py_error + real"
  loss_gradient :: "'bw \<times> 'lw \<times> Linear \<Rightarrow> 'r draw \<Rightarrow> batch \<Rightarrow> 'g"
  accumulate :: "'g option \<Rightarrow> 'g \<Rightarrow> 'g"
  adamw_init :: 'o
  adamw_update :: "real \<Rightarrow> 'o \<Rightarrow> 'g option \<Rightarrow> 'bw \<times> 'lw \<times> Linear \<Rightarrow> 'o \<times> 'bw \<times> 'lw \<times> Linear"
  f1_weighted :: "int list \<Rightarrow> int list \<Rightarrow> real"

text \<open>
  \<^verbatim>\<open>
      def forward(self, input_ids, attention_mask):
          outputs = self.bert(input_ids, attention_mask=attention_mask)
          sequence_output = outputs.last_hidden_state
          lstm_output, (h_n, c_n) = self.lstm(sequence_output)
          h_n = torch.cat((h_n[-2,:,:], h_n[-1,:,:]), dim=1)
          h_n = self.dropout(h_n)
          logits = self.classifier(h_n)
          return logits
  \<close>
\<close>

definition forward ::
  "('bw, 'lw, 'r, 'o, 'g) torch \<Rightarrow> ('bw, 'lw) BERTBiLSTM \<Rightarrow> 'r draw \<Rightarrow>
   int list list \<Rightarrow> int list list \<Rightarrow> py_error + mat"
where
  "forward T self rnd input_ids attention_mask =
     (case bert_forward T (bert self) (if training self then Some (bert_noise rnd) else None)
             input_ids attention_mask of
        Inl e \<Rightarrow> Inl e
      | Inr sequence_output \<Rightarrow>
          (case lstm_forward T (lstm self) sequence_output of
             Inl e \<Rightarrow> Inl e
           | Inr (lstm_output, h_n, c_n) \<Rightarrow>
               (case py_index h_n (- 2) of
                  Inl e \<Rightarrow> Inl e
                | Inr h_fwd \<Rightarrow>
                    (case py_index h_n (- 1) of
                       Inl e \<Rightarrow> Inl e
                     | Inr h_bwd \<Rightarrow>
                         (case cat_dim1 h_fwd h_bwd of
                            Inl e \<Rightarrow> Inl e
                          | Inr pooled \<Rightarrow>
                              linear (classifier self)
                                (dropout (1 / 10) (training self) (keep rnd) pooled))))))"

section \<open>The metrics of scikit-learn that \<open>evaluate\<close> prints\<close>

text \<open>
  \<open>classification_report(y_true, y_pred, target_names=target_names)\<close> and
  \<open>confusion_matrix(y_true, y_pred)\<close>, as the library documents them: both reject
  inputs of different lengths; the classes are the sorted distinct values of \<open>y_true\<close> and
  \<open>y_pred\<close> together; the report, called without \<open>labels\<close>, raises \<open>ValueError\<close> when
  the number of classes differs from the number of \<open>target_names\<close>. A report is modelled
  by its per-class rows; its summary rows and its layout as text are not.
\<close>

definition unique_labels :: "int list \<Rightarrow> int list \<Rightarrow> int list" where
  "unique_labels y_true y_pred = sort (remdups (y_true @ y_pred))"

definition ratio :: "nat \<Rightarrow> nat \<Rightarrow> real" where
  "ratio n d = (if d = 0 then 0 else real n / real d)"

record report_row =
  row_name :: str
  precision :: real
  recall :: real
  f1 :: real
  support :: nat

definition class_row :: "int list \<Rightarrow> int list \<Rightarrow> int \<Rightarrow> str \<Rightarrow> report_row" where
  "class_row y_true y_pred l name =
     (let tp = length (filter (\<lambda>(t, p). t = l \<and> p = l) (zip y_true y_pred));
          p = ratio tp (length (filter (\<lambda>p. p = l) y_pred));
          r = ratio tp (length (filter (\<lambda>t. t = l) y_true))
      in \<lparr>row_name = name, precision = p, recall = r,
          f1 = (if p + r = 0 then 0 else 2 * p * r / (p + r)),
          support = length (filter (\<lambda>t. t = l) y_true)\<rparr>)"

definition classification_report ::
  "int list \<Rightarrow> int list \<Rightarrow> str list \<Rightarrow> py_error + report_row list"
where
  "classification_report y_true y_pred names =
     (if length y_true \<noteq> length y_pred then Inl ValueError
      else if length (unique_labels y_true y_pred) \<noteq> length names then Inl ValueError
      else Inr (map2 (class_row y_true y_pred) (unique_labels y_true y_pred) names))"

definition confusion_matrix :: "int list \<Rightarrow> int list \<Rightarrow> py_error + nat list list" where
  "confusion_matrix y_true y_pred =
     (if length y_true \<noteq> length y_pred then Inl ValueError
      else Inr (map (\<lambda>t. map (\<lambda>p. length (filter (\<lambda>(a, b). a = t \<and> b = p) (zip y_true y_pred)))
                            (unique_labels y_true y_pred))
                  (unique_labels y_true y_pred)))"

section \<open>The evaluation procedure \<open>evaluate\<close>\<close>

text \<open>
  What a call prints, and what a Python function hands back: \<open>evaluate\<close> has no
  \<open>return\<close> statement, so a call that ends normally evaluates to \<open>None\<close>.
\<close>

datatype out =
    Print string
  | PrintReport "report_row list"
  | PrintMatrix "nat list list"
  | PrintEpoch nat nat real real
  | PrintEpochVal nat nat real real real real

datatype py_value = PyNone | PyTuple "real list"

text \<open>\<open>a, b = v\<close>: \<open>None\<close> cannot be unpacked; a tuple must have two items.\<close>

definition unpack2 :: "py_value \<Rightarrow> py_error + (real \<times> real)" where
  "unpack2 v =
     (case v of
        PyNone \<Rightarrow> Inl TypeError
      | PyTuple xs \<Rightarrow> (case xs of [a, b] \<Rightarrow> Inr (a, b) | _ \<Rightarrow> Inl ValueError))"

definition target_names :: "str list" where
  "target_names =
     [[0x5A5A, 0x604B, 0x4EA4, 0x53CB],
      [0x5047, 0x5192, 0x8EAB, 0x4EFD],
      [0x9493, 0x9C7C, 0x7F51, 0x7AD9],
      [0x5192, 0x5145, 0x516C, 0x68C0, 0x6CD5],
      [0x5E73, 0x53F0, 0x8BC8, 0x9A97],
      [0x62DB, 0x8058, 0x517C, 0x804C],
      [0x6740, 0x732A, 0x76D8],
      [0x535A, 0x5F69, 0x8D4C, 0x535A],
      [0x4FE1, 0x8D37, 0x7406, 0x8D22],
      [0x5237, 0x5355, 0x8BC8, 0x9A97]]"

text \<open>
  \<^verbatim>\<open>
  def evaluate(model, dataloader):
      device = torch.device("cuda" if torch.cuda.is_available() else "cpu")
      model.eval()
      y_true = []
      y_pred = []
      with torch.no_grad():
          for input_ids, attention_masks, labels in dataloader:
              input_ids = input_ids.to(device)
              attention_masks = attention_masks.to(device)
              labels = labels.to(device)

              outputs = model(input_ids, attention_masks)
              _, predicted = torch.max(outputs, dim=1)
              y_true.extend(labels.tolist())
              y_pred.extend(predicted.tolist())

      target_names = [ ...ten category names... ]
      print('Classification Report:')
      print(classification_report(y_true, y_pred, target_names=target_names))
      print('Confusion Matrix:')
      print(confusion_matrix(y_true, y_pred))
  \<close>
  The loop returns the two accumulators as they stand when it ends, with the exception
  that ended it, if one did. A run of \<open>evaluate\<close> is the record of everything the call
  leaves behind: the module (mutated by \<open>model.eval()\<close>), the two lists, the printed
  output, and the value returned or the exception raised. The loader is optional because
  \<open>train\<close> passes its default \<open>val_dataloader=None\<close> on; iterating \<open>None\<close> is a
  \<open>TypeError\<close>. \<open>key\<close> is the draw of the loader's sampler and \<open>draws\<close> the random
  numbers offered to the forward pass of each batch.
\<close>

fun evaluate_loop ::
  "('bw, 'lw, 'r, 'o, 'g) torch \<Rightarrow> ('bw, 'lw) BERTBiLSTM \<Rightarrow> (nat \<Rightarrow> 'r draw) \<Rightarrow> nat \<Rightarrow>
   batch list \<Rightarrow> int list \<Rightarrow> int list \<Rightarrow> int list \<times> int list \<times> py_error option"
where
  "evaluate_loop T model draws i [] y_true y_pred = (y_true, y_pred, None)"
| "evaluate_loop T model draws i (b # bs) y_true y_pred =
     (case forward T model (draws i) (batch_input_ids b) (batch_attention_mask b) of
        Inl e \<Rightarrow> (y_true, y_pred, Some e)
      | Inr outputs \<Rightarrow>
          (case argmax_rows outputs of
             Inl e \<Rightarrow> (y_true, y_pred, Some e)
           | Inr predicted \<Rightarrow>
               evaluate_loop T model draws (Suc i) bs (y_true @ batch_labels b) (y_pred @ predicted)))"

record ('bw, 'lw) eval_run =
  ev_model :: "('bw, 'lw) BERTBiLSTM"
  ev_y_true :: "int list"
  ev_y_pred :: "int list"
  ev_stdout :: "out list"
  ev_result :: "py_error + py_value"

definition evaluate ::
  "('bw, 'lw, 'r, 'o, 'g) torch \<Rightarrow> ('bw, 'lw) BERTBiLSTM \<Rightarrow> DataLoader option \<Rightarrow>
   (nat \<Rightarrow> nat) \<Rightarrow> (nat \<Rightarrow> 'r draw) \<Rightarrow> ('bw, 'lw) eval_run"
where
  "evaluate T model dataloader key draws =
     (let model = model\<lparr>training := False\<rparr> in
      case dataloader of
        None \<Rightarrow>
          \<lparr>ev_model = model, ev_y_true = [], ev_y_pred = [], ev_stdout = [],
           ev_result = Inl TypeError\<rparr>
      | Some dl \<Rightarrow>
          (case evaluate_loop T model draws 0 (iter_batches dl key) [] [] of
             (y_true, y_pred, Some e) \<Rightarrow>
               \<lparr>ev_model = model, ev_y_true = y_true, ev_y_pred = y_pred, ev_stdout = [],
                ev_result = Inl e\<rparr>
           | (y_true, y_pred, None) \<Rightarrow>
               (case classification_report y_true y_pred target_names of
                  Inl e \<Rightarrow>
                    \<lparr>ev_model = model, ev_y_true = y_true, ev_y_pred = y_pred,
                     ev_stdout = [Print ''Classification Report:''], ev_result = Inl e\<rparr>
                | Inr report \<Rightarrow>
                    (case confusion_matrix y_true y_pred of
                       Inl e \<Rightarrow>
                         \<lparr>ev_model = model, ev_y_true = y_true, ev_y_pred = y_pred,
                          ev_stdout = [Print ''Classification Report:'', PrintReport report,
                                       Print ''Confusion Matrix:''],
                          ev_result = Inl e\<rparr>
                     | Inr cm \<Rightarrow>
                         \<lparr>ev_model = model, ev_y_true = y_true, ev_y_pred = y_pred,
                          ev_stdout = [Print ''Classification Report:'', PrintReport report,
                                       Print ''Confusion Matrix:'', PrintMatrix cm],
                          ev_result = Inr PyNone\<rparr>))))"

section \<open>The training loop \<open>train\<close>\<close>

text \<open>
  \<open>torch.optim.AdamW(model.parameters(), lr=5e-5)\<close>: the learning rate, the moment
  estimates (type \<open>'o\<close>) and the number of calls of \<open>step()\<close> so far. The state of a
  training run is the module, the optimizer, the stored gradient (\<open>None\<close> after
  \<open>zero_grad()\<close>) and what has been printed.
\<close>

record 'o AdamW =
  lr :: real
  opt_state :: 'o
  step_count :: nat

record ('bw, 'lw, 'o, 'g) train_state =
  ts_model :: "('bw, 'lw) BERTBiLSTM"
  ts_optimizer :: "'o AdamW"
  ts_grad :: "'g option"
  ts_stdout :: "out list"

record 'r randomness =
  train_keys :: "nat \<Rightarrow> nat \<Rightarrow> nat"
  train_draws :: "nat \<Rightarrow> nat \<Rightarrow> 'r draw"
  val_keys :: "nat \<Rightarrow> nat \<Rightarrow> nat"
  val_draws :: "nat \<Rightarrow> nat \<Rightarrow> 'r draw"

definition zero_grad :: "('bw, 'lw, 'o, 'g) train_state \<Rightarrow> ('bw, 'lw, 'o, 'g) train_state" where
  "zero_grad s = s\<lparr>ts_grad := None\<rparr>"

definition backward ::
  "('bw, 'lw, 'r, 'o, 'g) torch \<Rightarrow> 'r draw \<Rightarrow> batch \<Rightarrow> ('bw, 'lw, 'o, 'g) train_state \<Rightarrow>
   ('bw, 'lw, 'o, 'g) train_state"
where
  "backward T rnd b s =
     s\<lparr>ts_grad := Some (accumulate T (ts_grad s) (loss_gradient T (parameters (ts_model s)) rnd b))\<rparr>"

definition optimizer_step ::
  "('bw, 'lw, 'r, 'o, 'g) torch \<Rightarrow> ('bw, 'lw, 'o, 'g) train_state \<Rightarrow> ('bw, 'lw, 'o, 'g) train_state"
where
  "optimizer_step T s =
     (case adamw_update T (lr (ts_optimizer s)) (opt_state (ts_optimizer s)) (ts_grad s)
             (parameters (ts_model s)) of
        (st, bw, lw, cl) \<Rightarrow>
          s\<lparr>ts_model := (ts_model s)\<lparr>bert := bw, lstm := lw, classifier := cl\<rparr>,
            ts_optimizer := (ts_optimizer s)\<lparr>opt_state := st,
                              step_count := Suc (step_count (ts_optimizer s))\<rparr>\<rparr>)"

text \<open>
  \<^verbatim>\<open>
  def train(model, train_dataloader, val_dataloader=None, epochs=4, evaluation=False):
      optimizer = torch.optim.AdamW(model.parameters(), lr=5e-5)
      criterion = nn.CrossEntropyLoss()

      for epoch in range(epochs):
          train_loss = 0
          train_f1 = 0

          model.train()
          for batch in train_dataloader:
              batch = tuple(t.to(device) for t in batch)
              input_ids, attention_mask, labels = batch

              optimizer.zero_grad()
              logits = model(input_ids, attention_mask)
              loss = criterion(logits, labels)
              loss.backward()
              optimizer.step()

              train_loss += loss.item()
              train_f1 += f1_score(labels.cpu().numpy(), logits.argmax(1).cpu().numpy(),
                                   average='weighted')

          if evaluation:
              val_loss, val_f1 = evaluate(model, val_dataloader)
              print('Epoch: {}/{} | Train Loss: {:.3f} | Train F1 Score: {:.3f} | Val Loss: {:.3f} | Val F1 Score: {:.3f}'
                    .format(epoch+1, epochs, train_loss/len(train_dataloader),
                            train_f1/len(train_dataloader), val_loss, val_f1))
          else:
              print('Epoch: {}/{} | Train Loss: {:.3f} | Train F1 Score: {:.3f}'
                    .format(epoch+1, epochs, train_loss/len(train_dataloader),
                            train_f1/len(train_dataloader)))

      return model
  \<close>
  The inner loop is \<open>train_batches\<close> (the index \<open>i\<close> of the batch only selects the
  random numbers of its forward pass), the outer loop is \<open>train_epochs\<close> (\<open>todo\<close> epochs
  remain, \<open>epoch\<close> is the loop variable). Both return the state as the exception, if
  any, leaves it.
\<close>

fun train_batches ::
  "('bw, 'lw, 'r, 'o, 'g) torch \<Rightarrow> (nat \<Rightarrow> 'r draw) \<Rightarrow> nat \<Rightarrow> batch list \<Rightarrow>
   ('bw, 'lw, 'o, 'g) train_state \<Rightarrow> real \<Rightarrow> real \<Rightarrow>
   ('bw, 'lw, 'o, 'g) train_state \<times> (py_error + real \<times> real)"
where
  "train_batches T draws i [] s train_loss train_f1 = (s, Inr (train_loss, train_f1))"
| "train_batches T draws i (b # rest) s train_loss train_f1 =
     (let s1 = zero_grad s in
      case forward T (ts_model s1) (draws i) (batch_input_ids b) (batch_attention_mask b) of
        Inl e \<Rightarrow> (s1, Inl e)
      | Inr logits \<Rightarrow>
          (case criterion T logits (batch_labels b) of
             Inl e \<Rightarrow> (s1, Inl e)
           | Inr loss \<Rightarrow>
               (let s2 = optimizer_step T (backward T (draws i) b s1) in
                case argmax_rows logits of
                  Inl e \<Rightarrow> (s2, Inl e)
                | Inr predicted \<Rightarrow>
                    train_batches T draws (Suc i) rest s2 (train_loss + loss)
                      (train_f1 + f1_weighted T (batch_labels b) predicted))))"

fun train_epochs ::
  "('bw, 'lw, 'r, 'o, 'g) torch \<Rightarrow> DataLoader \<Rightarrow> DataLoader option \<Rightarrow> nat \<Rightarrow> bool \<Rightarrow>
   'r randomness \<Rightarrow> nat \<Rightarrow> nat \<Rightarrow> ('bw, 'lw, 'o, 'g) train_state \<Rightarrow>
   ('bw, 'lw, 'o, 'g) train_state \<times> py_error option"
where
  "train_epochs T train_dataloader val_dataloader epochs evaluation rnd 0 epoch s = (s, None)"
| "train_epochs T train_dataloader val_dataloader epochs evaluation rnd (Suc todo) epoch s =
     (let s1 = s\<lparr>ts_model := (ts_model s)\<lparr>training := True\<rparr>\<rparr> in
      case train_batches T (train_draws rnd epoch) 0
             (iter_batches train_dataloader (train_keys rnd epoch)) s1 0 0 of
        (s2, Inl e) \<Rightarrow> (s2, Some e)
      | (s2, Inr (train_loss, train_f1)) \<Rightarrow>
          if evaluation then
            (let run = evaluate T (ts_model s2) val_dataloader (val_keys rnd epoch)
                         (val_draws rnd epoch);
                 s3 = s2\<lparr>ts_model := ev_model run, ts_stdout := ts_stdout s2 @ ev_stdout run\<rparr>
             in case ev_result run of
                  Inl e \<Rightarrow> (s3, Some e)
                | Inr v \<Rightarrow>
                    (case unpack2 v of
                       Inl e \<Rightarrow> (s3, Some e)
                     | Inr (val_loss, val_f1) \<Rightarrow>
                         if len_loader train_dataloader = 0 then (s3, Some ZeroDivisionError)
                         else train_epochs T train_dataloader val_dataloader epochs evaluation
                                rnd todo (Suc epoch)
                                (s3\<lparr>ts_stdout := ts_stdout s3 @
                                   [PrintEpochVal (epoch + 1) epochs
                                      (train_loss / real (len_loader train_dataloader))
                                      (train_f1 / real (len_loader train_dataloader))
                                      val_loss val_f1]\<rparr>)))
          else if len_loader train_dataloader = 0 then (s2, Some ZeroDivisionError)
          else train_epochs T train_dataloader val_dataloader epochs evaluation rnd todo
                 (Suc epoch)
                 (s2\<lparr>ts_stdout := ts_stdout s2 @
                    [PrintEpoch (epoch + 1) epochs
                       (train_loss / real (len_loader train_dataloader))
                       (train_f1 / real (len_loader train_dataloader))]\<rparr>))"

definition train ::
  "('bw, 'lw, 'r, 'o, 'g) torch \<Rightarrow> ('bw, 'lw) BERTBiLSTM \<Rightarrow> DataLoader \<Rightarrow> DataLoader option \<Rightarrow>
   nat \<Rightarrow> bool \<Rightarrow> 'r randomness \<Rightarrow>
   ('bw, 'lw, 'o, 'g) train_state \<times> (py_error + ('bw, 'lw) BERTBiLSTM)"
where
  "train T model train_dataloader val_dataloader epochs evaluation rnd =
     (let s0 = \<lparr>ts_model = model,
                ts_optimizer = \<lparr>lr = 5 / 100000, opt_state = adamw_init T, step_count = 0\<rparr>,
                ts_grad = None, ts_stdout = []\<rparr>
      in case train_epochs T train_dataloader val_dataloader epochs evaluation rnd epochs 0 s0 of
           (s, Some e) \<Rightarrow> (s, Inl e)
         | (s, None) \<Rightarrow> (s, Inr (ts_model s)))"

section \<open>The loaders the script builds\<close>

text \<open>
  \<^verbatim>\<open>
  train_dataset = TensorDataset(train_input_ids, train_attention_masks, train_labels)
  train_sampler = RandomSampler(train_dataset)
  train_dataloader = DataLoader(train_dataset, sampler=train_sampler, batch_size=32)
  ...
  test_dataset = TensorDataset(test_input_ids, test_attention_masks, test_labels)
  test_sampler = RandomSampler(test_dataset)
  test_dataloader = DataLoader(test_dataset, sampler=test_sampler, batch_size=32)
  \<close>
\<close>

definition train_dataloader :: "example list \<Rightarrow> DataLoader" where
  "train_dataloader train_dataset =
     \<lparr>dataset = train_dataset, sampler = RandomSampler, batch_size = 32\<rparr>"

definition test_dataloader :: "example list \<Rightarrow> DataLoader" where
  "test_dataloader test_dataset =
     \<lparr>dataset = test_dataset, sampler = RandomSampler, batch_size = 32\<rparr>"

section \<open>A stub environment for concrete runs\<close>

text \<open>
  A lightweight stand-in for the libraries, for evaluating the script's functions on
  concrete batches: the encoder's weight is one real \<open>w\<close> and the state of a token \<open>t\<close> is
  \<open>[w * t]\<close>; the recurrent layer has hidden size 5 per direction and its two final
  states are the two halves of the one-hot vector of the first token's state; the loss is
  the number of rows; the gradient is trivial and an optimizer step subtracts the
  learning rate from \<open>w\<close>.
\<close>

definition stub_bert ::
  "real \<Rightarrow> unit option \<Rightarrow> int list list \<Rightarrow> int list list \<Rightarrow> py_error + tensor3"
where
  "stub_bert w noise ids msk =
     (if map length ids = map length msk
      then Inr (map (map (\<lambda>t. [w * real_of_int t])) ids) else Inl RuntimeError)"

definition first_state :: "real list list \<Rightarrow> real" where
  "first_state toks = (case toks of (x # _) # _ \<Rightarrow> x | _ \<Rightarrow> 0)"

definition one_hot :: "nat \<Rightarrow> real \<Rightarrow> real list" where
  "one_hot lo v = map (\<lambda>j. if real j = v then 1 else 0) [lo..<lo + 5]"

definition stub_lstm :: "unit \<Rightarrow> tensor3 \<Rightarrow> py_error + (tensor3 \<times> mat list \<times> mat list)" where
  "stub_lstm lw sequence_output =
     Inr (sequence_output,
          [map (\<lambda>toks. one_hot 0 (first_state toks)) sequence_output,
           map (\<lambda>toks. one_hot 5 (first_state toks)) sequence_output],
          [])"

definition stub_torch :: "(real, unit, unit, unit, unit) torch" where
  "stub_torch =
     \<lparr>bert_forward = stub_bert, lstm_forward = stub_lstm,
      criterion = (\<lambda>logits labels.
         if length logits = length labels then Inr (real (length labels)) else Inl ValueError),
      loss_gradient = (\<lambda>w rnd b. ()),
      accumulate = (\<lambda>g0 g. ()),
      adamw_init = (),
      adamw_update = (\<lambda>rate st g (bw, lw, cl). (st, bw - rate, lw, cl)),
      f1_weighted = (\<lambda>y_true y_pred. 1)\<rparr>"

definition stub_model :: "(real, unit) BERTBiLSTM" where
  "stub_model = BERTBiLSTM_init 1 10 1 5 () (\<lambda>j k. if j = k then 1 else 0) (\<lambda>j. 0)"

definition stub_draw :: "unit draw" where
  "stub_draw = \<lparr>bert_noise = (), keep = (\<lambda>i j. True)\<rparr>"

definition stub_rnd :: "unit randomness" where
  "stub_rnd =
     \<lparr>train_keys = (\<lambda>epoch i. i), train_draws = (\<lambda>epoch i. stub_draw),
      val_keys = (\<lambda>epoch i. i), val_draws = (\<lambda>epoch i. stub_draw)\<rparr>"

text \<open>Ten examples of one token each, example \<open>i\<close> with token and label \<open>i\<close>.\<close>

definition ten_examples :: "example list" where
  "ten_examples = map (\<lambda>i. ([int i], [1], int i)) [0..<10]"

text \<open>
  What one iteration of the loop of \<open>evaluate\<close> predicts for a batch: the forward pass,
  then the index of the largest logit of each row. A name for stating what the loop
  appends to \<open>y_pred\<close>.
\<close>

definition predict_batch ::
  "('bw, 'lw, 'r, 'o, 'g) torch \<Rightarrow> ('bw, 'lw) BERTBiLSTM \<Rightarrow> 'r draw \<Rightarrow> batch \<Rightarrow>
   py_error + int list"
where
  "predict_batch T model rnd b =
     (case forward T model rnd (batch_input_ids b) (batch_attention_mask b) of
        Inl e \<Rightarrow> Inl e
      | Inr outputs \<Rightarrow> argmax_rows outputs)"

section \<open>Properties of ingestion\<close>

lemma py_split_unfold:
  "py_split sep s =
     takeWhile (\<lambda>c. c \<noteq> sep) s #
       (if sep \<in> set s then py_split sep (tl (dropWhile (\<lambda>c. c \<noteq> sep) s)) else [])"
  by (induction s) (auto split: list.splits)

lemma py_split_not_Nil: "py_split sep s \<noteq> []"
  by (subst py_split_unfold) simp

lemma py_index_0: "xs \<noteq> [] \<Longrightarrow> py_index xs 0 = Inr (hd xs)"
  by (cases xs) (simp_all add: py_index_def)

lemma py_index_1_short: "length xs = 1 \<Longrightarrow> py_index xs 1 = Inl IndexError"
  by (simp add: py_index_def)

lemma py_index_1: "py_index (x # y # ys) 1 = Inr y"
  by (simp add: py_index_def)

lemma split_no_tab: "TAB \<notin> set line \<Longrightarrow> py_split TAB line = [line]"
  by (subst py_split_unfold) (auto simp: takeWhile_eq_all_conv)

lemma split_tab:
  "TAB \<in> set line \<Longrightarrow> \<exists>rest. py_split TAB line = text_field line # label_field line # rest"
  apply (subst py_split_unfold)
  apply (simp add: text_field_def label_field_def)
  apply (subst py_split_unfold)
  apply simp
  done

lemma convert_step_no_tab:
  "TAB \<notin> set line \<Longrightarrow> convert_loop py_int (line # lines) text label = Inl IndexError"
  by (simp add: split_no_tab py_index_def)

lemma convert_step_wf:
  assumes "well_formed_line py_int line"
  shows "convert_loop py_int (line # lines) text label =
           convert_loop py_int lines (text @ [text_field line])
             (label @ [the (py_int (label_field line))])"
proof -
  from assms have t: "TAB \<in> set line" and p: "py_int (label_field line) \<noteq> None"
    by (simp_all add: well_formed_line_def)
  from split_tab [OF t] obtain rest where
    s: "py_split TAB line = text_field line # label_field line # rest" by blast
  from p obtain v where v: "py_int (label_field line) = Some v" by blast
  show ?thesis by (simp add: s v py_index_def)
qed

declare convert_loop.simps(2) [simp del]

lemma convert_loop_wf:
  "\<forall>l \<in> set lines. well_formed_line py_int l \<Longrightarrow>
   convert_loop py_int lines text label =
     Inr (text @ map text_field lines, label @ map (\<lambda>l. the (py_int (label_field l))) lines)"
proof (induction lines arbitrary: "text" label)
  case Nil
  then show ?case by simp
next
  case (Cons l ls)
  then show ?case by (simp add: convert_step_wf)
qed

lemma convert_loop_first_bad:
  "\<forall>p \<in> set pre. well_formed_line py_int p \<Longrightarrow> TAB \<notin> set l \<Longrightarrow>
   convert_loop py_int (pre @ l # post) text label = Inl IndexError"
proof (induction pre arbitrary: "text" label)
  case Nil
  then show ?case by (simp add: convert_step_no_tab)
next
  case (Cons p ps)
  then show ?case by (simp add: convert_step_wf)
qed

lemma convert_step_cases:
  "convert_loop py_int (line # lines) text label = Inl IndexError \<or>
   convert_loop py_int (line # lines) text label = Inl ValueError \<or>
   (TAB \<in> set line \<and> (\<exists>t v. convert_loop py_int (line # lines) text label =
       convert_loop py_int lines (text @ [t]) (label @ [v])))"
proof (cases "TAB \<in> set line")
  case False
  then show ?thesis by (simp add: convert_step_no_tab)
next
  case True
  from split_tab [OF True] obtain rest where
    s: "py_split TAB line = text_field line # label_field line # rest" by blast
  show ?thesis
    using True by (cases "py_int (label_field line)") (auto simp: s py_index_def convert_loop.simps(2))
qed

lemma convert_loop_aborts:
  "\<exists>l \<in> set lines. TAB \<notin> set l \<Longrightarrow>
   convert_loop py_int lines text label = Inl IndexError \<or>
   convert_loop py_int lines text label = Inl ValueError"
proof (induction lines arbitrary: "text" label)
  case Nil
  then show ?case by simp
next
  case (Cons l ls)
  from convert_step_cases [of py_int l ls "text" label]
  show ?case
  proof (elim disjE conjE exE)
    fix t v
    assume t: "TAB \<in> set l"
      and e: "convert_loop py_int (l # ls) text label = convert_loop py_int ls (text @ [t]) (label @ [v])"
    from t Cons.prems have "\<exists>l \<in> set ls. TAB \<notin> set l" by auto
    from Cons.IH [OF this, of "text @ [t]" "label @ [v]"] e show ?thesis by simp
  qed (simp_all add: Cons)
qed

lemma convert_loop_Cons:
  "convert_loop py_int (line # lines) ts ls =
     (case line_fields py_int line of
        Inl e \<Rightarrow> Inl e
      | Inr (t, v) \<Rightarrow> convert_loop py_int lines (ts @ [t]) (ls @ [v]))"
proof (cases "TAB \<in> set line")
  case False
  then show ?thesis by (simp add: convert_step_no_tab line_fields_def)
next
  case True
  from split_tab [OF True] obtain rest where
    s: "py_split TAB line = text_field line # label_field line # rest" by blast
  show ?thesis
    using True
    by (cases "py_int (label_field line)")
       (simp_all add: s py_index_def convert_loop.simps(2) line_fields_def)
qed

lemma convert_loop_same_fields:
  "line_fields py_int l = line_fields py_int l' \<Longrightarrow>
   convert_loop py_int (pre @ l # post) ts ls = convert_loop py_int (pre @ l' # post) ts ls"
proof (induction pre arbitrary: ts ls)
  case Nil
  then show ?case by (simp add: convert_loop_Cons)
next
  case (Cons p ps)
  then show ?case by (simp add: convert_loop_Cons split: sum.splits)
qed

lemma takeWhile_upto_sep:
  "sep \<notin> set t \<Longrightarrow> takeWhile (\<lambda>c. c \<noteq> sep) (t @ sep # r) = t"
  by (induction t) auto

lemma dropWhile_upto_sep:
  "sep \<notin> set t \<Longrightarrow> dropWhile (\<lambda>c. c \<noteq> sep) (t @ sep # r) = sep # r"
  by (induction t) auto

lemma takeWhile_no_sep:
  "sep \<notin> set t \<Longrightarrow> takeWhile (\<lambda>c. c \<noteq> sep) t = t"
  by (induction t) auto

lemma fields_extra:
  assumes "TAB \<notin> set t" "TAB \<notin> set f"
  shows "text_field (t @ TAB # f @ TAB # rest) = t"
    and "label_field (t @ TAB # f @ TAB # rest) = f"
    and "text_field (t @ TAB # f) = t"
    and "label_field (t @ TAB # f) = f"
  using assms
  by (simp_all add: text_field_def label_field_def takeWhile_upto_sep dropWhile_upto_sep
      takeWhile_no_sep)

lemma line_fields_extra:
  "TAB \<notin> set t \<Longrightarrow> TAB \<notin> set f \<Longrightarrow>
   line_fields py_int (t @ TAB # f @ TAB # rest) = line_fields py_int (t @ TAB # f)"
  by (simp add: line_fields_def fields_extra split: option.splits)

text \<open>
  Claim C10. For a file in which every line has a tab and an integer second field,
  \<open>convert_to_text_label\<close> returns two lists as long as the file, in file order: the text
  of line \<open>i\<close> is the part of the line before its first tab and the label is the integer
  read from its second field. Fields after the second are ignored: dropping them from a
  line leaves the result unchanged.
\<close>

theorem convert_well_formed:
  assumes "\<forall>l \<in> set lines. well_formed_line py_int l"
  shows "\<exists>texts labels.
           convert_to_text_label py_int lines = Inr (texts, labels) \<and>
           length texts = length lines \<and> length labels = length lines \<and>
           (\<forall>i < length lines.
              texts ! i = takeWhile (\<lambda>c. c \<noteq> TAB) (lines ! i) \<and>
              py_int (label_field (lines ! i)) = Some (labels ! i)) \<and>
           (\<forall>pre t f rest post.
              lines = pre @ (t @ TAB # f @ TAB # rest) # post \<and>
              TAB \<notin> set t \<and> TAB \<notin> set f \<longrightarrow>
              convert_to_text_label py_int (pre @ (t @ TAB # f) # post) = Inr (texts, labels))"
proof -
  let ?texts = "map text_field lines"
  let ?labels = "map (\<lambda>l. the (py_int (label_field l))) lines"
  have r: "convert_to_text_label py_int lines = Inr (?texts, ?labels)"
    using convert_loop_wf [OF assms, of "[]" "[]"] by (simp add: convert_to_text_label_def)
  have f: "\<forall>i < length lines.
             ?texts ! i = takeWhile (\<lambda>c. c \<noteq> TAB) (lines ! i) \<and>
             py_int (label_field (lines ! i)) = Some (?labels ! i)"
  proof (intro allI impI)
    fix i assume i: "i < length lines"
    then have "well_formed_line py_int (lines ! i)" using assms by simp
    then show "?texts ! i = takeWhile (\<lambda>c. c \<noteq> TAB) (lines ! i) \<and>
               py_int (label_field (lines ! i)) = Some (?labels ! i)"
      using i by (auto simp: well_formed_line_def text_field_def)
  qed
  have x: "\<forall>pre t f rest post.
              lines = pre @ (t @ TAB # f @ TAB # rest) # post \<and>
              TAB \<notin> set t \<and> TAB \<notin> set f \<longrightarrow>
              convert_to_text_label py_int (pre @ (t @ TAB # f) # post) = Inr (?texts, ?labels)"
  proof (intro allI impI, elim conjE)
    fix pre t f rest post
    assume l: "lines = pre @ (t @ TAB # f @ TAB # rest) # post"
      and t: "TAB \<notin> set t" and f: "TAB \<notin> set f"
    have "convert_to_text_label py_int (pre @ (t @ TAB # f) # post) =
          convert_to_text_label py_int lines"
      unfolding convert_to_text_label_def l
      by (rule convert_loop_same_fields [symmetric]) (rule line_fields_extra [OF t f])
    then show "convert_to_text_label py_int (pre @ (t @ TAB # f) # post) = Inr (?texts, ?labels)"
      using r by simp
  qed
  show ?thesis
  proof (intro exI conjI)
    show "convert_to_text_label py_int lines = Inr (?texts, ?labels)" by (rule r)
    show "length ?texts = length lines" by simp
    show "length ?labels = length lines" by simp
  qed (rule f, rule x)
qed

lemma normalize_inverse: "map (\<lambda>n. n + 2) (normalize_labels raw) = raw"
  by (simp add: normalize_labels_def comp_def)

lemma normalize_range:
  "(set (normalize_labels raw) \<subseteq> {0..<10}) = (set raw \<subseteq> {2..<12})"
  by (auto simp: normalize_labels_def)

lemmas ascii_eval = ascii_int_def ascii_strip_def ascii_space_def TAB_def
  well_formed_line_def label_field_def text_field_def convert_to_text_label_def
  convert_loop.simps py_index_def

text \<open>
  Claim C7. A line without a tab is fatal: when the lines before it are well formed the
  call raises \<open>IndexError\<close> at that line, and whatever the other lines are, a file holding
  such a line never yields a result (the call raises, it neither skips nor repairs the
  line).
\<close>

theorem missing_label_is_fatal:
  assumes "TAB \<notin> set l"
  shows "((\<forall>p \<in> set pre. well_formed_line py_int p) \<longrightarrow>
            convert_to_text_label py_int (pre @ l # post) = Inl IndexError) \<and>
         (l \<in> set lines \<longrightarrow>
            convert_to_text_label py_int lines = Inl IndexError \<or>
            convert_to_text_label py_int lines = Inl ValueError)"
  using assms convert_loop_first_bad [of pre py_int l post "[]" "[]"]
    convert_loop_aborts [of lines py_int "[]" "[]"]
  by (auto simp: convert_to_text_label_def)

text \<open>
  A run of C7: the second of three lines has no tab.
\<close>

theorem missing_label_is_fatal_witness:
  "TAB \<notin> set [66, 10] \<and> well_formed_line ascii_int [31532, 9, 51, 10] \<and>
   convert_to_text_label ascii_int [[31532, 9, 51, 10], [66, 10], [67, 9, 52, 10]] = Inl IndexError"
proof -
  have a: "TAB \<notin> set [66, 10]" by (simp add: TAB_def)
  have b: "well_formed_line ascii_int [31532, 9, 51, 10]" by (simp add: ascii_eval)
  from missing_label_is_fatal [OF a, of "[[31532, 9, 51, 10]]" ascii_int "[[67, 9, 52, 10]]"] b
  have "convert_to_text_label ascii_int ([[31532, 9, 51, 10]] @ [66, 10] # [[67, 9, 52, 10]]) = Inl IndexError"
    by simp
  with a b show ?thesis by simp
qed

text \<open>
  A run of C10: two lines, the first with Chinese text, the second with a negative label
  and a third field.
\<close>

theorem convert_well_formed_witness:
  "well_formed_line ascii_int [31532, 19968, 9, 51, 10] \<and>
   well_formed_line ascii_int [65, 9, 45, 49, 50, 9, 66, 10] \<and>
   convert_to_text_label ascii_int [[31532, 19968, 9, 51, 10], [65, 9, 45, 49, 50, 9, 66, 10]] =
     Inr ([[31532, 19968], [65]], [3, - 12]) \<and>
   convert_to_text_label ascii_int [[31532, 19968, 9, 51, 10], [65, 9, 45, 49, 50]] =
     Inr ([[31532, 19968], [65]], [3, - 12])"
proof -
  let ?l1 = "[31532, 19968, 9, 51, 10] :: nat list"
  let ?l2 = "[65, 9, 45, 49, 50, 9, 66, 10] :: nat list"
  have a: "well_formed_line ascii_int ?l1" by (simp add: ascii_eval)
  have b: "well_formed_line ascii_int ?l2" by (simp add: ascii_eval)
  have wf: "\<forall>l \<in> set [?l1, ?l2]. well_formed_line ascii_int l" using a b by simp
  from convert_well_formed [OF wf] obtain texts labels where
    r: "convert_to_text_label ascii_int [?l1, ?l2] = Inr (texts, labels)" and
    x: "\<forall>pre t f rest post.
          [?l1, ?l2] = pre @ (t @ TAB # f @ TAB # rest) # post \<and> TAB \<notin> set t \<and> TAB \<notin> set f \<longrightarrow>
          convert_to_text_label ascii_int (pre @ (t @ TAB # f) # post) = Inr (texts, labels)"
    by blast
  have e: "convert_to_text_label ascii_int [?l1, ?l2] = Inr ([[31532, 19968], [65]], [3, - 12])"
    by (simp add: ascii_eval)
  from x [rule_format, of "[?l1]" "[65]" "[45, 49, 50]" "[66, 10]" "[]"]
  have "convert_to_text_label ascii_int [?l1, [65, 9, 45, 49, 50]] = Inr (texts, labels)"
    by (simp add: TAB_def)
  with r e a b show ?thesis by simp
qed

text \<open>
  Claim C3, as the code has it. Whenever ingestion succeeds, the training labels are the raw
  labels of \<open>train.txt\<close> followed by those of \<open>dev.txt\<close>, each minus 2, and the test
  labels are the raw labels of \<open>test.txt\<close>, each minus 2; adding 2 gives the raw labels
  back. Nothing checks the range: the normalized labels lie in \<open>[0, 10)\<close> exactly when the
  raw labels lie in \<open>[2, 12)\<close>.
\<close>

theorem label_offset:
  assumes "ingest py_int train_txt dev_txt test_txt = Inr d"
  shows "\<exists>t1 raw_train t2 raw_dev t3 raw_test.
           convert_to_text_label py_int train_txt = Inr (t1, raw_train) \<and>
           convert_to_text_label py_int dev_txt = Inr (t2, raw_dev) \<and>
           convert_to_text_label py_int test_txt = Inr (t3, raw_test) \<and>
           train_labels d = map (\<lambda>raw. raw - 2) (raw_train @ raw_dev) \<and>
           test_labels d = map (\<lambda>raw. raw - 2) raw_test \<and>
           map (\<lambda>n. n + 2) (train_labels d) = raw_train @ raw_dev \<and>
           map (\<lambda>n. n + 2) (test_labels d) = raw_test \<and>
           (set (train_labels d) \<subseteq> {0..<10}) = (set (raw_train @ raw_dev) \<subseteq> {2..<12}) \<and>
           (set (test_labels d) \<subseteq> {0..<10}) = (set raw_test \<subseteq> {2..<12})"
  using assms normalize_range [of "raw_train @ raw_dev" for raw_train raw_dev]
  by (auto simp: ingest_def normalize_inverse normalize_range
      simp del: set_append split: sum.splits prod.splits)
     (auto simp: normalize_labels_def)

text \<open>
  A run of C3 with raw labels 2, 11 and 5.
\<close>

theorem label_offset_witness:
  "ingest ascii_int [[65, 9, 50, 10]] [[66, 9, 49, 49, 10]] [[67, 9, 53, 10]] =
     Inr \<lparr>train_texts = [[65], [66]], train_labels = [0, 9],
          test_texts = [[67]], test_labels = [3]\<rparr> \<and>
   convert_to_text_label ascii_int [[65, 9, 50, 10]] = Inr ([[65]], [2]) \<and>
   convert_to_text_label ascii_int [[66, 9, 49, 49, 10]] = Inr ([[66]], [11]) \<and>
   map (\<lambda>n. n + 2) [0, 9] = [2, 11 :: int]"
proof -
  let ?d = "\<lparr>train_texts = [[65], [66]], train_labels = [0, 9],
             test_texts = [[67]], test_labels = [3]\<rparr>"
  have i: "ingest ascii_int [[65, 9, 50, 10]] [[66, 9, 49, 49, 10]] [[67, 9, 53, 10]] = Inr ?d"
    by code_simp
  have a: "convert_to_text_label ascii_int [[65, 9, 50, 10]] = Inr ([[65]], [2])"
    by code_simp
  have b: "convert_to_text_label ascii_int [[66, 9, 49, 49, 10]] = Inr ([[66]], [11])"
    by code_simp
  from label_offset [OF i] a b have "map (\<lambda>n. n + 2) (train_labels ?d) = [2] @ [11]"
    by auto
  with i a b show ?thesis by simp
qed

text \<open>
  Claim C3 as stated fails: a raw label 1 in \<open>train.txt\<close> is normalized to \<open>-1\<close> and a
  raw label 12 in \<open>test.txt\<close> to \<open>10\<close>, both outside \<open>[0, 10)\<close>.
\<close>

theorem label_range_counterexample:
  "ingest ascii_int [[65, 9, 49, 10]] [] [[66, 9, 49, 50, 10]] =
     Inr \<lparr>train_texts = [[65]], train_labels = [- 1],
          test_texts = [[66]], test_labels = [10]\<rparr> \<and>
   \<not> set [- 1 :: int] \<subseteq> {0..<10} \<and> \<not> set [10 :: int] \<subseteq> {0..<10}"
proof -
  have "ingest ascii_int [[65, 9, 49, 10]] [] [[66, 9, 49, 50, 10]] =
     Inr \<lparr>train_texts = [[65]], train_labels = [- 1],
          test_texts = [[66]], test_labels = [10]\<rparr>"
    by code_simp
  then show ?thesis by simp
qed

section \<open>Properties of the evaluation procedure and the training loop\<close>

lemma forward_eval_mode:
  "\<not> training m \<Longrightarrow> forward T m r1 ids am = forward T m r2 ids am"
  by (simp add: forward_def dropout_def split: sum.splits prod.splits)

lemma evaluate_loop_eval_mode:
  "\<not> training m \<Longrightarrow>
   evaluate_loop T m d1 i bs yt yp = evaluate_loop T m d2 i bs yt yp"
proof (induction bs arbitrary: i yt yp)
  case Nil
  then show ?case by simp
next
  case (Cons b bs)
  have "forward T m (d1 i) (batch_input_ids b) (batch_attention_mask b) =
        forward T m (d2 i) (batch_input_ids b) (batch_attention_mask b)"
    using Cons.prems by (rule forward_eval_mode)
  then show ?case using Cons by (simp split: sum.splits)
qed

lemma ev_model_evaluate:
  "ev_model (evaluate T m dl key draws) = m\<lparr>training := False\<rparr>"
  by (simp add: evaluate_def Let_def split: option.splits prod.splits sum.splits)

lemma evaluate_eval_mode:
  "evaluate T (m\<lparr>training := False\<rparr>) dl key d2 = evaluate T m dl key d1"
proof (cases dl)
  case None
  then show ?thesis by (simp add: evaluate_def)
next
  case (Some l)
  have "evaluate_loop T (m\<lparr>training := False\<rparr>) d2 0 (iter_batches l key) [] [] =
        evaluate_loop T (m\<lparr>training := False\<rparr>) d1 0 (iter_batches l key) [] []"
    by (rule evaluate_loop_eval_mode) simp
  then show ?thesis using Some by (simp add: evaluate_def)
qed

text \<open>
  Claim C6. Running \<open>evaluate\<close> again on the module the first run leaves behind, over
  the same loader with the same sampler draw, gives the same run: the same predictions,
  the same confusion matrix, the same output. The random numbers offered to the forward
  passes may differ between the two runs; in evaluation mode none is used.
\<close>

theorem evaluate_twice_identical:
  "evaluate T (ev_model (evaluate T m dl key d1)) dl key d2 = evaluate T m dl key d1 \<and>
   ev_y_pred (evaluate T (ev_model (evaluate T m dl key d1)) dl key d2) =
     ev_y_pred (evaluate T m dl key d1) \<and>
   confusion_matrix
       (ev_y_true (evaluate T (ev_model (evaluate T m dl key d1)) dl key d2))
       (ev_y_pred (evaluate T (ev_model (evaluate T m dl key d1)) dl key d2)) =
     confusion_matrix (ev_y_true (evaluate T m dl key d1)) (ev_y_pred (evaluate T m dl key d1))"
  using evaluate_eval_mode [of T m dl key d2 d1] by (simp add: ev_model_evaluate)

text \<open>
  Claim C9. \<open>evaluate\<close> leaves every parameter of the module as it was (encoder,
  recurrent layer and linear head), whatever the loader and whether or not the call
  raises; it only switches the module to evaluation mode.
\<close>

theorem evaluate_keeps_parameters:
  "parameters (ev_model (evaluate T m dl key draws)) = parameters m \<and>
   bert (ev_model (evaluate T m dl key draws)) = bert m \<and>
   lstm (ev_model (evaluate T m dl key draws)) = lstm m \<and>
   classifier (ev_model (evaluate T m dl key draws)) = classifier m \<and>
   \<not> training (ev_model (evaluate T m dl key draws))"
  by (simp add: ev_model_evaluate parameters_def)

lemma evaluate_result_None:
  "ev_result (evaluate T m dl key draws) = Inr v \<Longrightarrow> v = PyNone"
  by (auto simp: evaluate_def Let_def split: option.splits prod.splits sum.splits)

lemma train_epochs_validation_raises:
  "\<exists>e. snd (train_epochs T tdl vdl epochs True rnd (Suc todo) epoch s) = Some e"
proof -
  let ?s1 = "s\<lparr>ts_model := (ts_model s)\<lparr>training := True\<rparr>\<rparr>"
  obtain s2 r where tb:
    "train_batches T (train_draws rnd epoch) 0 (iter_batches tdl (train_keys rnd epoch)) ?s1 0 0 = (s2, r)"
    by (cases "train_batches T (train_draws rnd epoch) 0 (iter_batches tdl (train_keys rnd epoch)) ?s1 0 0")
  show ?thesis
  proof (cases r)
    case (Inl e)
    with tb show ?thesis by simp
  next
    case (Inr acc)
    let ?run = "evaluate T (ts_model s2) vdl (val_keys rnd epoch) (val_draws rnd epoch)"
    show ?thesis
    proof (cases "ev_result ?run")
      case (Inl e)
      with tb Inr show ?thesis by (simp add: Let_def split: prod.splits)
    next
      case (Inr v)
      then have "v = PyNone" by (rule evaluate_result_None)
      with tb \<open>r = Inr acc\<close> Inr show ?thesis
        by (simp add: Let_def unpack2_def split: prod.splits)
    qed
  qed
qed

text \<open>
  Claim C1 does not hold of the code. \<open>evaluate\<close> has no \<open>return\<close>: a call never
  evaluates to a pair (loss, weighted F1), and \<open>None\<close> cannot be unpacked. So with
  \<open>evaluation=True\<close> and at least one epoch, \<open>train\<close> always ends in an exception.
\<close>

theorem train_with_validation_raises:
  "(\<exists>e. snd (train T m tdl vdl (Suc n) True rnd) = Inl e) \<and>
   ev_result (evaluate T m vdl key draws) \<noteq> Inr (PyTuple [val_loss, val_f1]) \<and>
   unpack2 PyNone = Inl TypeError"
proof -
  let ?s0 = "\<lparr>ts_model = m,
              ts_optimizer = \<lparr>lr = 5 / 100000, opt_state = adamw_init T, step_count = 0\<rparr>,
              ts_grad = None, ts_stdout = []\<rparr>"
  from train_epochs_validation_raises [of T tdl vdl "Suc n" rnd n 0 ?s0]
  obtain e where "snd (train_epochs T tdl vdl (Suc n) True rnd (Suc n) 0 ?s0) = Some e" by blast
  then have "snd (train T m tdl vdl (Suc n) True rnd) = Inl e"
    by (cases "train_epochs T tdl vdl (Suc n) True rnd (Suc n) 0 ?s0")
       (auto simp: train_def simp del: train_epochs.simps)
  moreover have "ev_result (evaluate T m vdl key draws) \<noteq> Inr (PyTuple [val_loss, val_f1])"
    using evaluate_result_None by fastforce
  ultimately show ?thesis by (simp add: unpack2_def)
qed

lemma ceil_div_step:
  assumes n: "0 < n" and m: "0 < (m::nat)"
  shows "(m + n - 1) div n = Suc ((m - n + n - 1) div n)"
proof (cases "n \<le> m")
  case True
  have a: "m + n - 1 = (m - 1) + n" using m by arith
  have b: "m - n + n - 1 = m - 1" using True by arith
  have "((m - 1) + n) div n = Suc ((m - 1) div n)"
    using n by simp
  then show ?thesis by (simp only: a b)
next
  case False
  have a: "m + n - 1 = (m - 1) + n" using m by arith
  have b: "m - n + n - 1 = n - 1" using False by arith
  have c: "(m - 1) div n = 0" using False m by (intro div_less) arith
  have d: "(n - 1) div n = 0" using n by (intro div_less) arith
  have "((m - 1) + n) div n = Suc ((m - 1) div n)"
    using n by simp
  then show ?thesis by (simp only: a b c d)
qed

lemma length_chunks: "length (chunks n xs) = (length xs + n - 1) div n"
proof (induction n xs rule: chunks.induct)
  case (1 n xs)
  show ?case
  proof (cases "n = 0 \<or> xs = []")
    case True
    have e: "chunks n xs = []" using True by (subst chunks.simps) simp
    have "(length xs + n - 1) div n = 0"
    proof (cases "n = 0")
      case True
      then show ?thesis by simp
    next
      case False
      with \<open>n = 0 \<or> xs = []\<close> have "xs = []" by simp
      moreover have "(n - 1) div n = 0" using False by (intro div_less) arith
      ultimately show ?thesis by simp
    qed
    with e show ?thesis by simp
  next
    case False
    then have n: "0 < n" and x: "0 < length xs" by auto
    have "chunks n xs = take n xs # chunks n (drop n xs)"
      using False by (subst chunks.simps) simp
    then have "length (chunks n xs) = Suc (length (chunks n (drop n xs)))" by simp
    also have "length (chunks n (drop n xs)) = (length (drop n xs) + n - 1) div n"
      using False by (rule "1.IH")
    also have "length (drop n xs) = length xs - n" by simp
    finally show ?thesis using ceil_div_step [OF n x] by simp
  qed
qed

lemma length_sample_order: "length (sample_order s n key) = n"
  by (cases s) (simp_all add: sample_order_def)

lemma length_iter_batches: "length (iter_batches dl key) = len_loader dl"
  by (simp add: iter_batches_def len_loader_def length_chunks length_sample_order)

lemma optimizer_step_count:
  "step_count (ts_optimizer (optimizer_step T s)) = Suc (step_count (ts_optimizer s))"
  "lr (ts_optimizer (optimizer_step T s)) = lr (ts_optimizer s)"
  by (simp_all add: optimizer_step_def split: prod.splits)

lemma backward_zero_grad_optimizer:
  "ts_optimizer (backward T r b s) = ts_optimizer s"
  "ts_optimizer (zero_grad s) = ts_optimizer s"
  by (simp_all add: backward_def zero_grad_def)

lemma train_batches_count:
  "train_batches T d i bs s l f = (s', r) \<Longrightarrow>
   step_count (ts_optimizer s') \<le> step_count (ts_optimizer s) + length bs \<and>
   lr (ts_optimizer s') = lr (ts_optimizer s) \<and>
   ((\<exists>acc. r = Inr acc) \<longrightarrow>
      step_count (ts_optimizer s') = step_count (ts_optimizer s) + length bs)"
proof (induction bs arbitrary: i s l f)
  case Nil
  then show ?case by auto
next
  case (Cons b bs)
  show ?case
  proof (cases "forward T (ts_model (zero_grad s)) (d i) (batch_input_ids b) (batch_attention_mask b)")
    case (Inl e)
    with Cons.prems show ?thesis by (auto simp: Let_def backward_zero_grad_optimizer)
  next
    case logits: (Inr logits)
    show ?thesis
    proof (cases "criterion T logits (batch_labels b)")
      case (Inl e)
      with Cons.prems logits show ?thesis by (auto simp: Let_def backward_zero_grad_optimizer)
    next
      case loss: (Inr loss)
      let ?s2 = "optimizer_step T (backward T (d i) b (zero_grad s))"
      have c: "step_count (ts_optimizer ?s2) = Suc (step_count (ts_optimizer s))"
        and k: "lr (ts_optimizer ?s2) = lr (ts_optimizer s)"
        by (simp_all add: optimizer_step_count backward_zero_grad_optimizer)
      show ?thesis
      proof (cases "argmax_rows logits")
        case (Inl e)
        with Cons.prems logits loss c k show ?thesis by (auto simp: Let_def)
      next
        case (Inr predicted)
        with Cons.prems logits loss have
          "train_batches T d (Suc i) bs ?s2 (l + loss)
             (f + f1_weighted T (batch_labels b) predicted) = (s', r)"
          by (simp add: Let_def)
        from Cons.IH [OF this] c k show ?thesis by auto
      qed
    qed
  qed
qed

lemma train_epochs_step_error:
  "train_batches T (train_draws rnd epoch) 0 (iter_batches tdl (train_keys rnd epoch))
     (s\<lparr>ts_model := (ts_model s)\<lparr>training := True\<rparr>\<rparr>) 0 0 = (s2, Inl e) \<Longrightarrow>
   train_epochs T tdl vdl E ev rnd (Suc todo) epoch s = (s2, Some e)"
  by simp

lemma train_epochs_step_plain:
  "train_batches T (train_draws rnd epoch) 0 (iter_batches tdl (train_keys rnd epoch))
     (s\<lparr>ts_model := (ts_model s)\<lparr>training := True\<rparr>\<rparr>) 0 0 = (s2, Inr (train_loss, train_f1)) \<Longrightarrow>
   train_epochs T tdl vdl E False rnd (Suc todo) epoch s =
     (if len_loader tdl = 0 then (s2, Some ZeroDivisionError)
      else train_epochs T tdl vdl E False rnd todo (Suc epoch)
             (s2\<lparr>ts_stdout := ts_stdout s2 @
                [PrintEpoch (epoch + 1) E (train_loss / real (len_loader tdl))
                   (train_f1 / real (len_loader tdl))]\<rparr>))"
  by simp

lemma train_epochs_step_validation:
  assumes "train_batches T (train_draws rnd epoch) 0 (iter_batches tdl (train_keys rnd epoch))
     (s\<lparr>ts_model := (ts_model s)\<lparr>training := True\<rparr>\<rparr>) 0 0 = (s2, Inr acc)"
  shows "\<exists>e. train_epochs T tdl vdl E True rnd (Suc todo) epoch s =
     (s2\<lparr>ts_model := ev_model (evaluate T (ts_model s2) vdl (val_keys rnd epoch) (val_draws rnd epoch)),
         ts_stdout := ts_stdout s2 @
           ev_stdout (evaluate T (ts_model s2) vdl (val_keys rnd epoch) (val_draws rnd epoch))\<rparr>,
      Some e)"
proof -
  let ?run = "evaluate T (ts_model s2) vdl (val_keys rnd epoch) (val_draws rnd epoch)"
  show ?thesis
  proof (cases "ev_result ?run")
    case (Inl e)
    with assms show ?thesis by (simp add: Let_def split: prod.splits)
  next
    case (Inr v)
    then have "v = PyNone" by (rule evaluate_result_None)
    with assms Inr show ?thesis by (simp add: Let_def unpack2_def split: prod.splits)
  qed
qed

lemma train_epochs_count:
  "train_epochs T tdl vdl E ev rnd todo epoch s = (s', r) \<Longrightarrow>
   step_count (ts_optimizer s') \<le> step_count (ts_optimizer s) + todo * len_loader tdl \<and>
   lr (ts_optimizer s') = lr (ts_optimizer s) \<and>
   (r = None \<longrightarrow>
      step_count (ts_optimizer s') = step_count (ts_optimizer s) + todo * len_loader tdl)"
proof (induction todo arbitrary: epoch s)
  case 0
  then show ?case by auto
next
  case (Suc todo)
  let ?s1 = "s\<lparr>ts_model := (ts_model s)\<lparr>training := True\<rparr>\<rparr>"
  obtain s2 r2 where tb:
    "train_batches T (train_draws rnd epoch) 0 (iter_batches tdl (train_keys rnd epoch)) ?s1 0 0 = (s2, r2)"
    by (cases "train_batches T (train_draws rnd epoch) 0 (iter_batches tdl (train_keys rnd epoch)) ?s1 0 0")
  from train_batches_count [OF tb] have
    le: "step_count (ts_optimizer s2) \<le> step_count (ts_optimizer s) + len_loader tdl" and
    k: "lr (ts_optimizer s2) = lr (ts_optimizer s)" and
    eq: "(\<exists>acc. r2 = Inr acc) \<longrightarrow>
           step_count (ts_optimizer s2) = step_count (ts_optimizer s) + len_loader tdl"
    by (simp_all add: length_iter_batches)
  show ?case
  proof (cases r2)
    case (Inl e)
    from train_epochs_step_error [OF tb [unfolded Inl], of vdl E ev todo] Suc.prems
    have "s' = s2" and "r = Some e" by simp_all
    with le k show ?thesis by simp
  next
    case (Inr acc)
    obtain train_loss train_f1 where acc: "acc = (train_loss, train_f1)" by (cases acc)
    from eq Inr have eq': "step_count (ts_optimizer s2) = step_count (ts_optimizer s) + len_loader tdl"
      by simp
    show ?thesis
    proof (cases ev)
      case False
      note step = train_epochs_step_plain [OF tb [unfolded Inr acc], of vdl E todo]
      show ?thesis
      proof (cases "len_loader tdl = 0")
        case True
        with step Suc.prems False have "s' = s2" and "r = Some ZeroDivisionError" by simp_all
        with eq' k show ?thesis by simp
      next
        case nz: False
        let ?s3 = "s2\<lparr>ts_stdout := ts_stdout s2 @
                    [PrintEpoch (epoch + 1) E (train_loss / real (len_loader tdl))
                       (train_f1 / real (len_loader tdl))]\<rparr>"
        from step Suc.prems False nz have
          "train_epochs T tdl vdl E ev rnd todo (Suc epoch) ?s3 = (s', r)"
          by (simp del: train_epochs.simps)
        from Suc.IH [OF this] eq' k show ?thesis by simp
      qed
    next
      case True
      from train_epochs_step_validation [OF tb [unfolded Inr], of vdl E todo] Suc.prems True
      obtain e where
        "s' = s2\<lparr>ts_model := ev_model (evaluate T (ts_model s2) vdl (val_keys rnd epoch) (val_draws rnd epoch)),
         ts_stdout := ts_stdout s2 @
           ev_stdout (evaluate T (ts_model s2) vdl (val_keys rnd epoch) (val_draws rnd epoch))\<rparr>"
        and "r = Some e"
        by (auto simp del: train_epochs.simps)
      with eq' k show ?thesis by simp
    qed
  qed
qed

text \<open>
  Claim C4. The optimizer of a call of \<open>train\<close> takes at most
  \<open>epochs * len(train_dataloader)\<close> steps, and exactly that many when the call returns;
  its learning rate stays \<open>5e-5\<close>. A pass over a list of batches that ends without
  exception takes exactly one step per batch.
\<close>

theorem train_update_count:
  "step_count (ts_optimizer (fst (train T m tdl vdl E ev rnd))) \<le> E * len_loader tdl \<and>
   lr (ts_optimizer (fst (train T m tdl vdl E ev rnd))) = 5 / 100000 \<and>
   ((\<exists>m'. snd (train T m tdl vdl E ev rnd) = Inr m') \<longrightarrow>
      step_count (ts_optimizer (fst (train T m tdl vdl E ev rnd))) = E * len_loader tdl) \<and>
   ((\<exists>acc. snd (train_batches T d i bs s l f) = Inr acc) \<longrightarrow>
      step_count (ts_optimizer (fst (train_batches T d i bs s l f))) =
        step_count (ts_optimizer s) + length bs)"
proof -
  let ?s0 = "\<lparr>ts_model = m,
              ts_optimizer = \<lparr>lr = 5 / 100000, opt_state = adamw_init T, step_count = 0\<rparr>,
              ts_grad = None, ts_stdout = []\<rparr>"
  obtain s' r where te: "train_epochs T tdl vdl E ev rnd E 0 ?s0 = (s', r)"
    by (cases "train_epochs T tdl vdl E ev rnd E 0 ?s0")
  have f: "fst (train T m tdl vdl E ev rnd) = s'"
    using te by (cases r) (simp_all add: train_def del: train_epochs.simps)
  have g: "(\<exists>m'. snd (train T m tdl vdl E ev rnd) = Inr m') \<longrightarrow> r = None"
    using te by (cases r) (simp_all add: train_def del: train_epochs.simps)
  from train_epochs_count [OF te] f g have
    "step_count (ts_optimizer (fst (train T m tdl vdl E ev rnd))) \<le> E * len_loader tdl"
    "lr (ts_optimizer (fst (train T m tdl vdl E ev rnd))) = 5 / 100000"
    "(\<exists>m'. snd (train T m tdl vdl E ev rnd) = Inr m') \<longrightarrow>
      step_count (ts_optimizer (fst (train T m tdl vdl E ev rnd))) = E * len_loader tdl"
    by auto
  moreover have "(\<exists>acc. snd (train_batches T d i bs s l f) = Inr acc) \<longrightarrow>
      step_count (ts_optimizer (fst (train_batches T d i bs s l f))) =
        step_count (ts_optimizer s) + length bs"
    using train_batches_count [of T d i bs s l f "fst (train_batches T d i bs s l f)"
        "snd (train_batches T d i bs s l f)"]
    by simp
  ultimately show ?thesis by blast
qed

lemma length_dropout: "length (dropout p t k x) = length x"
  by (simp add: dropout_def)

lemma dropout_rows:
  "\<forall>row \<in> set x. length row = n \<Longrightarrow> \<forall>row \<in> set (dropout p t k x). length row = n"
  by (auto simp: dropout_def enumerate_eq_zip dest: set_zip_rightD)

lemma linear_shape:
  assumes "\<forall>row \<in> set x. length row = n" and "\<forall>w \<in> set (weight L). length w = n"
  shows "linear L x =
           Inr (map (\<lambda>row. map2 (\<lambda>w b. dot w row + b) (weight L) (bias L)) x)"
  using assms by (simp add: linear_def list_all_iff)

lemma py_index_pair:
  "length h_n = 2 \<Longrightarrow> py_index h_n (- 2) = Inr (h_n ! 0) \<and> py_index h_n (- 1) = Inr (h_n ! 1)"
  by (simp add: py_index_def)

lemma cat_dim1_rows:
  assumes "length a = B" "length b = B"
    and "\<forall>row \<in> set a. length row = Hr" "\<forall>row \<in> set b. length row = Hr"
  shows "cat_dim1 a b = Inr (map2 (@) a b) \<and> length (map2 (@) a b) = B \<and>
         (\<forall>row \<in> set (map2 (@) a b). length row = 2 * Hr)"
proof -
  have "length row = 2 * Hr" if "row \<in> set (map2 (@) a b)" for row
  proof -
    from that obtain x y where "(x, y) \<in> set (zip a b)" and row: "row = x @ y" by auto
    then have "x \<in> set a" and "y \<in> set b" by (auto dest: set_zip_leftD set_zip_rightD)
    with assms(3,4) row show ?thesis by simp
  qed
  with assms(1,2) show ?thesis by (simp add: cat_dim1_def)
qed

text \<open>
  Claim C5. When the encoder returns its per-token states, the recurrent layer returns the
  final hidden states of its two directions, each of shape \<open>(B, Hr)\<close>, and the head maps
  \<open>2 * Hr\<close> features to 10 classes, \<open>forward\<close> returns logits of shape \<open>(B, 10)\<close>, for
  every \<open>B\<close>: the linear head applied to the dropout of the row-wise concatenation of the
  two final states, with nothing (no softmax) applied after the head.
\<close>

theorem forward_logits_shape:
  assumes enc: "bert_forward T (bert self)
                  (if training self then Some (bert_noise rnd) else None)
                  input_ids attention_mask = Inr sequence_output"
    and rec: "lstm_forward T (lstm self) sequence_output = Inr (lstm_output, h_n, c_n)"
    and dirs: "length h_n = 2"
    and hid: "\<forall>h \<in> set h_n. length h = B \<and> (\<forall>row \<in> set h. length row = Hr)"
    and head: "length (weight (classifier self)) = 10"
              "\<forall>w \<in> set (weight (classifier self)). length w = 2 * Hr"
              "length (bias (classifier self)) = 10"
  shows "\<exists>logits.
           forward T self rnd input_ids attention_mask = Inr logits \<and>
           length logits = B \<and> (\<forall>row \<in> set logits. length row = 10) \<and>
           logits =
             map (\<lambda>pooled. map2 (\<lambda>w b. dot w pooled + b)
                               (weight (classifier self)) (bias (classifier self)))
               (dropout (1 / 10) (training self) (keep rnd) (map2 (@) (h_n ! 0) (h_n ! 1)))"
proof -
  let ?a = "h_n ! 0" and ?b = "h_n ! 1"
  let ?d = "dropout (1 / 10) (training self) (keep rnd) (map2 (@) ?a ?b)"
  let ?logits = "map (\<lambda>pooled. map2 (\<lambda>w b. dot w pooled + b)
                               (weight (classifier self)) (bias (classifier self))) ?d"
  have a: "?a \<in> set h_n" and b: "?b \<in> set h_n" using dirs by simp_all
  from hid a b have sa: "length ?a = B" "\<forall>row \<in> set ?a. length row = Hr"
    and sb: "length ?b = B" "\<forall>row \<in> set ?b. length row = Hr" by blast+
  note cat = cat_dim1_rows [OF sa(1) sb(1) sa(2) sb(2)]
  from cat have rows: "\<forall>row \<in> set ?d. length row = 2 * Hr"
    by (intro dropout_rows) simp
  have lin: "linear (classifier self) ?d = Inr ?logits"
    using rows head(2) by (rule linear_shape)
  have f: "forward T self rnd input_ids attention_mask = Inr ?logits"
    using enc rec py_index_pair [OF dirs] cat lin by (simp add: forward_def)
  have l: "length ?logits = B" using cat by (simp add: length_dropout)
  have r: "\<forall>row \<in> set ?logits. length row = 10" using head by auto
  from f l r show ?thesis by blast
qed

lemma init_head_shape:
  "length (weight (classifier (BERTBiLSTM_init w n hs Hr l w0 b0))) = n \<and>
   (\<forall>v \<in> set (weight (classifier (BERTBiLSTM_init w n hs Hr l w0 b0))). length v = 2 * Hr) \<and>
   length (bias (classifier (BERTBiLSTM_init w n hs Hr l w0 b0))) = n"
  by (auto simp: BERTBiLSTM_init_def)

lemma length_unique_labels:
  "length (unique_labels y_true y_pred) = card (set y_true \<union> set y_pred)"
  by (simp add: unique_labels_def length_remdups_card_conv)

lemma length_target_names: "length target_names = 10"
  by (simp add: target_names_def)

text \<open>
  Claim C8. When the loop of \<open>evaluate\<close> has collected \<open>y_true\<close> and \<open>y_pred\<close>, the
  report is produced only if they hold exactly 10 distinct labels between them: with any
  other number \<open>classification_report\<close> raises \<open>ValueError\<close> after the heading has been
  printed, and neither report nor confusion matrix is printed; with exactly 10 (and lists
  of equal length) the call prints both and returns \<open>None\<close>.
\<close>

theorem report_needs_ten_classes:
  assumes "evaluate_loop T (m\<lparr>training := False\<rparr>) draws 0 (iter_batches dl key) [] [] =
             (y_true, y_pred, None)"
  shows "(card (set y_true \<union> set y_pred) \<noteq> 10 \<longrightarrow>
            ev_result (evaluate T m (Some dl) key draws) = Inl ValueError \<and>
            ev_stdout (evaluate T m (Some dl) key draws) = [Print ''Classification Report:'']) \<and>
         (card (set y_true \<union> set y_pred) = 10 \<and> length y_true = length y_pred \<longrightarrow>
            ev_result (evaluate T m (Some dl) key draws) = Inr PyNone \<and>
            (\<exists>report cm.
               classification_report y_true y_pred target_names = Inr report \<and>
               length report = 10 \<and>
               ev_stdout (evaluate T m (Some dl) key draws) =
                 [Print ''Classification Report:'', PrintReport report,
                  Print ''Confusion Matrix:'', PrintMatrix cm]))"
  using assms
  by (auto simp: evaluate_def classification_report_def confusion_matrix_def
      length_unique_labels length_target_names)

lemma concat_chunks: "0 < n \<Longrightarrow> concat (chunks n xs) = xs"
proof (induction n xs rule: chunks.induct)
  case (1 n xs)
  show ?case
  proof (cases "xs = []")
    case True
    then show ?thesis by (subst chunks.simps) simp
  next
    case False
    with "1.prems" have "chunks n xs = take n xs # chunks n (drop n xs)"
      by (subst chunks.simps) simp
    moreover have "concat (chunks n (drop n xs)) = drop n xs"
      using False "1.prems" by (intro "1.IH") simp_all
    ultimately show ?thesis by simp
  qed
qed

lemma labels_of_stream:
  "0 < batch_size dl \<Longrightarrow>
   concat (map batch_labels (iter_batches dl key)) =
     map (\<lambda>i. snd (snd (dataset dl ! i)))
       (sample_order (sampler dl) (length (dataset dl)) key)"
proof -
  assume n: "0 < batch_size dl"
  let ?order = "sample_order (sampler dl) (length (dataset dl)) key"
  have "concat (map batch_labels (iter_batches dl key)) =
        concat (map (map (\<lambda>i. snd (snd (dataset dl ! i)))) (chunks (batch_size dl) ?order))"
    by (simp add: iter_batches_def collate_def comp_def)
  also have "\<dots> = map (\<lambda>i. snd (snd (dataset dl ! i))) (concat (chunks (batch_size dl) ?order))"
    by (simp add: map_concat)
  also have "\<dots> = map (\<lambda>i. snd (snd (dataset dl ! i))) ?order"
    using n by (simp add: concat_chunks)
  finally show ?thesis .
qed

lemma labels_in_index_order:
  "map (\<lambda>i. snd (snd (ds ! i))) [0..<length ds] = map (\<lambda>e. snd (snd e)) ds"
proof -
  have "map (\<lambda>i. snd (snd (ds ! i))) [0..<length ds] =
        map (\<lambda>e. snd (snd e)) (map ((!) ds) [0..<length ds])"
    by (simp add: comp_def)
  then show ?thesis by (simp only: map_nth)
qed

lemma mset_sample_order: "mset (sample_order s n key) = mset [0..<n]"
  by (cases s) (simp_all add: sample_order_def)

lemma labels_permuted:
  "mset (map (\<lambda>i. snd (snd (ds ! i))) (sample_order s (length ds) key)) =
   mset (map (\<lambda>e. snd (snd e)) ds)"
proof -
  have "mset (map (\<lambda>i. snd (snd (ds ! i))) (sample_order s (length ds) key)) =
        image_mset (\<lambda>i. snd (snd (ds ! i))) (mset [0..<length ds])"
    by (simp only: mset_map mset_sample_order)
  also have "\<dots> = mset (map (\<lambda>i. snd (snd (ds ! i))) [0..<length ds])"
    by (simp only: mset_map)
  finally show ?thesis by (simp only: labels_in_index_order)
qed

lemma evaluate_loop_complete:
  "evaluate_loop T m d i bs yt yp = (y_true, y_pred, None) \<Longrightarrow>
   y_true = yt @ concat (map batch_labels bs) \<and>
   (\<exists>preds. length preds = length bs \<and> y_pred = yp @ concat preds \<and>
      (\<forall>j < length bs. predict_batch T m (d (i + j)) (bs ! j) = Inr (preds ! j)))"
proof (induction bs arbitrary: i yt yp)
  case Nil
  then show ?case by simp
next
  case (Cons b bs)
  from Cons.prems obtain outputs predicted where
    f: "forward T m (d i) (batch_input_ids b) (batch_attention_mask b) = Inr outputs" and
    a: "argmax_rows outputs = Inr predicted" and
    rest: "evaluate_loop T m d (Suc i) bs (yt @ batch_labels b) (yp @ predicted) =
             (y_true, y_pred, None)"
    by (auto split: sum.splits)
  from Cons.IH [OF rest] obtain preds where
    t: "y_true = (yt @ batch_labels b) @ concat (map batch_labels bs)" and
    n: "length preds = length bs" and
    p: "y_pred = (yp @ predicted) @ concat preds" and
    each: "\<forall>j < length bs. predict_batch T m (d (Suc i + j)) (bs ! j) = Inr (preds ! j)"
    by blast
  have here: "predict_batch T m (d i) b = Inr predicted"
    using f a by (simp add: predict_batch_def)
  have "\<forall>j < length (b # bs).
          predict_batch T m (d (i + j)) ((b # bs) ! j) = Inr ((predicted # preds) ! j)"
  proof (intro allI impI)
    fix j assume j: "j < length (b # bs)"
    show "predict_batch T m (d (i + j)) ((b # bs) ! j) = Inr ((predicted # preds) ! j)"
    proof (cases j)
      case 0
      with here show ?thesis by simp
    next
      case (Suc k)
      with j each show ?thesis by simp
    qed
  qed
  with t n p show ?case
    by (intro conjI exI [of _ "predicted # preds"]) simp_all
qed

text \<open>
  Claim C2, as the code has it. When the loop of \<open>evaluate\<close> ends without exception, it
  has consumed every batch of the stream once, in stream order: \<open>y_true\<close> is the
  concatenation of the batches' labels and \<open>y_pred\<close> the concatenation of their
  predictions. The stream is the loader's: the labels arrive in the order of its sampler,
  always a permutation of the dataset's labels; in dataset order for a
  \<open>SequentialSampler\<close>, in the order of the random draw for a \<open>RandomSampler\<close> (the
  sampler of \<open>test_dataloader\<close>).
\<close>

theorem evaluate_stream_order:
  assumes loop: "evaluate_loop T (m\<lparr>training := False\<rparr>) draws 0 (iter_batches dl key) [] [] =
                   (y_true, y_pred, None)"
    and size: "0 < batch_size dl"
  shows "ev_y_true (evaluate T m (Some dl) key draws) =
           concat (map batch_labels (iter_batches dl key)) \<and>
         (\<exists>preds. length preds = length (iter_batches dl key) \<and>
            ev_y_pred (evaluate T m (Some dl) key draws) = concat preds \<and>
            (\<forall>j < length (iter_batches dl key).
               predict_batch T (m\<lparr>training := False\<rparr>) (draws j) (iter_batches dl key ! j) =
                 Inr (preds ! j))) \<and>
         ev_y_true (evaluate T m (Some dl) key draws) =
           map (\<lambda>i. snd (snd (dataset dl ! i)))
             (sample_order (sampler dl) (length (dataset dl)) key) \<and>
         mset (ev_y_true (evaluate T m (Some dl) key draws)) =
           mset (map (\<lambda>e. snd (snd e)) (dataset dl)) \<and>
         (sampler dl = SequentialSampler \<longrightarrow>
            ev_y_true (evaluate T m (Some dl) key draws) = map (\<lambda>e. snd (snd e)) (dataset dl)) \<and>
         (sampler dl = RandomSampler \<longrightarrow>
            ev_y_true (evaluate T m (Some dl) key draws) =
              map (\<lambda>i. snd (snd (dataset dl ! i))) (sort_key key [0..<length (dataset dl)]))"
proof -
  let ?r = "evaluate T m (Some dl) key draws"
  have yt: "ev_y_true ?r = y_true" and yp: "ev_y_pred ?r = y_pred"
    using loop by (simp_all add: evaluate_def Let_def split: sum.splits)
  from evaluate_loop_complete [OF loop] have
    t: "y_true = concat (map batch_labels (iter_batches dl key))" and
    p: "\<exists>preds. length preds = length (iter_batches dl key) \<and> y_pred = concat preds \<and>
          (\<forall>j < length (iter_batches dl key).
             predict_batch T (m\<lparr>training := False\<rparr>) (draws j) (iter_batches dl key ! j) =
               Inr (preds ! j))"
    by simp_all
  note o = labels_of_stream [OF size, of key]
  have ms: "mset y_true = mset (map (\<lambda>e. snd (snd e)) (dataset dl))"
    unfolding t o by (rule labels_permuted)
  have sq: "sampler dl = SequentialSampler \<longrightarrow> y_true = map (\<lambda>e. snd (snd e)) (dataset dl)"
    unfolding t o by (simp add: sample_order_def labels_in_index_order)
  have rn: "sampler dl = RandomSampler \<longrightarrow>
              y_true = map (\<lambda>i. snd (snd (dataset dl ! i))) (sort_key key [0..<length (dataset dl)])"
    unfolding t o by (simp add: sample_order_def)
  from t p o ms sq rn show ?thesis unfolding yt yp by simp
qed

section \<open>Concrete runs\<close>

lemmas run_defs = evaluate_def iter_batches_def test_dataloader_def train_dataloader_def
  sample_order_def collate_def forward_def stub_torch_def stub_model_def stub_draw_def
  stub_bert_def stub_lstm_def first_state_def one_hot_def BERTBiLSTM_init_def py_index_def
  cat_dim1_def dropout_def linear_def dot_def argmax_rows_def classification_report_def
  confusion_matrix_def unique_labels_def class_row_def ratio_def target_names_def
  ten_examples_def chunks.simps enumerate_eq_zip

lemma upt_small:
  "[0..<5] = [0, 1, 2, 3, 4]" "[5..<10] = [5, 6, 7, 8, 9]"
  "[0..<10] = [0, 1, 2, 3, 4, 5, 6, 7, 8, 9]"
  by code_simp+

lemmas run_simps = run_defs Let_def upt_small

lemma two_loop:
  "evaluate_loop stub_torch (stub_model\<lparr>training := False\<rparr>) (\<lambda>i. stub_draw) 0
     (iter_batches (test_dataloader [([0], [1], 0), ([1], [1], 1)]) (\<lambda>i. 2 - i)) [] [] =
   ([1, 0], [1, 0], None)"
  by (simp add: run_simps)

text \<open>
  Claim C2 as stated fails for the final test evaluation: \<open>test_dataloader\<close> has a
  \<open>RandomSampler\<close>, and with a draw that reverses two test examples \<open>evaluate\<close> consumes
  them in reverse order.
\<close>

theorem test_order_counterexample:
  "ev_y_true (evaluate stub_torch stub_model
      (Some (test_dataloader [([0], [1], 0), ([1], [1], 1)])) (\<lambda>i. 2 - i) (\<lambda>i. stub_draw)) =
     [1, 0] \<and>
   map (\<lambda>e. snd (snd e)) [([0], [1], 0), ([1], [1], 1 :: int)] = [0, 1 :: int]"
  by (simp add: run_simps)

lemma ten_loop:
  "evaluate_loop stub_torch (stub_model\<lparr>training := False\<rparr>) (\<lambda>i. stub_draw) 0
     (iter_batches (test_dataloader ten_examples) (\<lambda>i. i)) [] [] =
   ([0, 1, 2, 3, 4, 5, 6, 7, 8, 9], [0, 1, 2, 3, 4, 5, 6, 7, 8, 9], None)"
  by (simp add: run_simps)

lemma ten_result:
  "ev_result (evaluate stub_torch stub_model (Some (test_dataloader ten_examples)) (\<lambda>i. i)
     (\<lambda>i. stub_draw)) = Inr PyNone"
  by (simp add: run_simps)

lemma three_len:
  "len_loader \<lparr>dataset = [([0], [1], 0), ([1], [1], 1), ([2], [1], 2)],
      sampler = RandomSampler, batch_size = 2\<rparr> = 2"
  by code_simp

lemmas train_simps = run_simps train_def zero_grad_def backward_def optimizer_step_def
  parameters_def stub_rnd_def unpack2_def

lemma four_epochs:
  "step_count (ts_optimizer (fst (train stub_torch stub_model
     \<lparr>dataset = [([0], [1], 0), ([1], [1], 1), ([2], [1], 2)],
      sampler = RandomSampler, batch_size = 2\<rparr>
     None (Suc (Suc (Suc (Suc 0)))) False stub_rnd))) = 8"
  by (simp add: train_simps three_len)

lemma one_epoch_validation:
  "snd (train stub_torch stub_model
     \<lparr>dataset = [([0], [1], 0), ([1], [1], 1), ([2], [1], 2)],
      sampler = RandomSampler, batch_size = 2\<rparr>
     (Some (test_dataloader ten_examples)) (Suc 0) True stub_rnd) = Inl TypeError"
  by (simp add: train_simps three_len)

text \<open>
  A run of C2 on the two-example test loader with the reversing draw.
\<close>

theorem evaluate_stream_order_witness:
  "evaluate_loop stub_torch (stub_model\<lparr>training := False\<rparr>) (\<lambda>i. stub_draw) 0
     (iter_batches (test_dataloader [([0], [1], 0), ([1], [1], 1)]) (\<lambda>i. 2 - i)) [] [] =
     ([1, 0], [1, 0], None) \<and>
   0 < batch_size (test_dataloader [([0], [1], 0), ([1], [1], 1)]) \<and>
   ev_y_true (evaluate stub_torch stub_model
      (Some (test_dataloader [([0], [1], 0), ([1], [1], 1)])) (\<lambda>i. 2 - i) (\<lambda>i. stub_draw)) =
     concat (map batch_labels
       (iter_batches (test_dataloader [([0], [1], 0), ([1], [1], 1)]) (\<lambda>i. 2 - i))) \<and>
   mset (ev_y_true (evaluate stub_torch stub_model
      (Some (test_dataloader [([0], [1], 0), ([1], [1], 1)])) (\<lambda>i. 2 - i) (\<lambda>i. stub_draw))) =
     mset [0, 1]"
proof -
  have size: "0 < batch_size (test_dataloader [([0], [1], 0), ([1], [1], 1)])"
    by (simp add: test_dataloader_def)
  from evaluate_stream_order [OF two_loop size] have
    "ev_y_true (evaluate stub_torch stub_model
      (Some (test_dataloader [([0], [1], 0), ([1], [1], 1)])) (\<lambda>i. 2 - i) (\<lambda>i. stub_draw)) =
     concat (map batch_labels
       (iter_batches (test_dataloader [([0], [1], 0), ([1], [1], 1)]) (\<lambda>i. 2 - i)))"
    and "mset (ev_y_true (evaluate stub_torch stub_model
      (Some (test_dataloader [([0], [1], 0), ([1], [1], 1)])) (\<lambda>i. 2 - i) (\<lambda>i. stub_draw))) =
     mset (map (\<lambda>e. snd (snd e)) (dataset (test_dataloader [([0], [1], 0), ([1], [1], 1)])))"
    by blast+
  moreover have "map (\<lambda>e. snd (snd e)) (dataset (test_dataloader [([0], [1], 0), ([1], [1], 1)])) =
    [0, 1]"
    by (simp add: test_dataloader_def)
  ultimately show ?thesis using two_loop size by simp
qed

text \<open>
  Runs of C8: a test stream with two classes (the report raises) and one with ten (the
  call returns \<open>None\<close>).
\<close>

theorem report_needs_ten_classes_witness:
  "evaluate_loop stub_torch (stub_model\<lparr>training := False\<rparr>) (\<lambda>i. stub_draw) 0
     (iter_batches (test_dataloader [([0], [1], 0), ([1], [1], 1)]) (\<lambda>i. 2 - i)) [] [] =
     ([1, 0], [1, 0], None) \<and>
   card (set [1, 0 :: int] \<union> set [1, 0]) = 2 \<and>
   ev_result (evaluate stub_torch stub_model
      (Some (test_dataloader [([0], [1], 0), ([1], [1], 1)])) (\<lambda>i. 2 - i) (\<lambda>i. stub_draw)) =
     Inl ValueError \<and>
   ev_stdout (evaluate stub_torch stub_model
      (Some (test_dataloader [([0], [1], 0), ([1], [1], 1)])) (\<lambda>i. 2 - i) (\<lambda>i. stub_draw)) =
     [Print ''Classification Report:''] \<and>
   evaluate_loop stub_torch (stub_model\<lparr>training := False\<rparr>) (\<lambda>i. stub_draw) 0
     (iter_batches (test_dataloader ten_examples) (\<lambda>i. i)) [] [] =
     ([0, 1, 2, 3, 4, 5, 6, 7, 8, 9], [0, 1, 2, 3, 4, 5, 6, 7, 8, 9], None) \<and>
   card (set [0, 1, 2, 3, 4, 5, 6, 7, 8, 9 :: int] \<union> set [0, 1, 2, 3, 4, 5, 6, 7, 8, 9]) = 10 \<and>
   ev_result (evaluate stub_torch stub_model (Some (test_dataloader ten_examples)) (\<lambda>i. i)
      (\<lambda>i. stub_draw)) = Inr PyNone"
proof -
  have c2: "card (set [1, 0 :: int] \<union> set [1, 0]) = 2" by simp
  have c10: "card (set [0, 1, 2, 3, 4, 5, 6, 7, 8, 9 :: int] \<union> set [0, 1, 2, 3, 4, 5, 6, 7, 8, 9]) = 10"
    by simp
  from report_needs_ten_classes [OF two_loop] c2 have
    "ev_result (evaluate stub_torch stub_model
      (Some (test_dataloader [([0], [1], 0), ([1], [1], 1)])) (\<lambda>i. 2 - i) (\<lambda>i. stub_draw)) =
     Inl ValueError"
    "ev_stdout (evaluate stub_torch stub_model
      (Some (test_dataloader [([0], [1], 0), ([1], [1], 1)])) (\<lambda>i. 2 - i) (\<lambda>i. stub_draw)) =
     [Print ''Classification Report:'']"
    by simp_all
  moreover from report_needs_ten_classes [OF ten_loop] c10 have
    "ev_result (evaluate stub_torch stub_model (Some (test_dataloader ten_examples)) (\<lambda>i. i)
      (\<lambda>i. stub_draw)) = Inr PyNone"
    by simp
  ultimately show ?thesis using two_loop ten_loop c2 c10 by simp
qed

text \<open>
  The failing run of C1: one epoch with validation over a stream that has all ten classes;
  \<open>evaluate\<close> prints its report and returns \<open>None\<close>, and the unpacking raises
  \<open>TypeError\<close>.
\<close>

theorem train_with_validation_raises_witness:
  "snd (train stub_torch stub_model
     \<lparr>dataset = [([0], [1], 0), ([1], [1], 1), ([2], [1], 2)],
      sampler = RandomSampler, batch_size = 2\<rparr>
     (Some (test_dataloader ten_examples)) (Suc 0) True stub_rnd) = Inl TypeError \<and>
   ev_result (evaluate stub_torch stub_model (Some (test_dataloader ten_examples)) (\<lambda>i. i)
      (\<lambda>i. stub_draw)) = Inr PyNone \<and>
   unpack2 PyNone = Inl TypeError"
  using train_with_validation_raises [of stub_torch stub_model
      "\<lparr>dataset = [([0], [1], 0), ([1], [1], 1), ([2], [1], 2)],
        sampler = RandomSampler, batch_size = 2\<rparr>"
      "Some (test_dataloader ten_examples)" 0 stub_rnd "\<lambda>i. i" "\<lambda>i. stub_draw" 0 0]
    one_epoch_validation ten_result
  by simp

text \<open>
  A run of C4: 4 epochs over 3 examples in batches of 2, that is 2 batches an epoch and 8
  optimizer steps.
\<close>

theorem train_update_count_witness:
  "step_count (ts_optimizer (fst (train stub_torch stub_model
     \<lparr>dataset = [([0], [1], 0), ([1], [1], 1), ([2], [1], 2)],
      sampler = RandomSampler, batch_size = 2\<rparr>
     None 4 False stub_rnd))) = 8 \<and>
   4 * len_loader \<lparr>dataset = [([0], [1], 0), ([1], [1], 1), ([2], [1], 2)],
      sampler = RandomSampler, batch_size = 2\<rparr> = 8 \<and>
   lr (ts_optimizer (fst (train stub_torch stub_model
     \<lparr>dataset = [([0], [1], 0), ([1], [1], 1), ([2], [1], 2)],
      sampler = RandomSampler, batch_size = 2\<rparr>
     None 4 False stub_rnd))) = 5 / 100000"
proof -
  have n: "(4::nat) = Suc (Suc (Suc (Suc 0)))" by simp
  have a: "step_count (ts_optimizer (fst (train stub_torch stub_model
     \<lparr>dataset = [([0], [1], 0), ([1], [1], 1), ([2], [1], 2)],
      sampler = RandomSampler, batch_size = 2\<rparr>
     None 4 False stub_rnd))) = 8"
    unfolding n by (rule four_epochs)
  from train_update_count [of stub_torch stub_model
      "\<lparr>dataset = [([0], [1], 0), ([1], [1], 1), ([2], [1], 2)],
        sampler = RandomSampler, batch_size = 2\<rparr>" None 4 False stub_rnd]
  have "step_count (ts_optimizer (fst (train stub_torch stub_model
     \<lparr>dataset = [([0], [1], 0), ([1], [1], 1), ([2], [1], 2)],
      sampler = RandomSampler, batch_size = 2\<rparr>
     None 4 False stub_rnd))) \<le> 4 * len_loader \<lparr>dataset = [([0], [1], 0), ([1], [1], 1), ([2], [1], 2)],
      sampler = RandomSampler, batch_size = 2\<rparr>"
    and "lr (ts_optimizer (fst (train stub_torch stub_model
     \<lparr>dataset = [([0], [1], 0), ([1], [1], 1), ([2], [1], 2)],
      sampler = RandomSampler, batch_size = 2\<rparr>
     None 4 False stub_rnd))) = 5 / 100000"
    by blast+
  with a three_len show ?thesis by simp
qed

text \<open>
  A run of C5 with batch size 1, in training mode.
\<close>

theorem forward_logits_shape_witness:
  "\<exists>logits. forward stub_torch stub_model stub_draw [[3]] [[1]] = Inr logits \<and>
     length logits = 1 \<and> length (hd logits) = 10"
proof -
  let ?h = "[[one_hot 0 3], [one_hot 5 3]]"
  have enc: "bert_forward stub_torch (bert stub_model)
               (if training stub_model then Some (bert_noise stub_draw) else None) [[3]] [[1]] =
             Inr [[[3]]]"
    by (simp add: stub_torch_def stub_model_def stub_bert_def BERTBiLSTM_init_def)
  have rec: "lstm_forward stub_torch (lstm stub_model) [[[3]]] = Inr ([[[3]]], ?h, [])"
    by (simp add: stub_torch_def stub_lstm_def first_state_def)
  have dirs: "length ?h = 2" by simp
  have hid: "\<forall>h \<in> set ?h. length h = 1 \<and> (\<forall>row \<in> set h. length row = 5)"
    by (simp add: one_hot_def)
  have head: "length (weight (classifier stub_model)) = 10"
    "\<forall>w \<in> set (weight (classifier stub_model)). length w = 2 * 5"
    "length (bias (classifier stub_model)) = 10"
    unfolding stub_model_def
    using init_head_shape [of "1::real" 10 1 5 "()" "\<lambda>j k. if j = k then 1 else 0" "\<lambda>j. 0"]
    by blast+
  from forward_logits_shape [OF enc rec dirs hid head]
  obtain logits where
    f: "forward stub_torch stub_model stub_draw [[3]] [[1]] = Inr logits" and
    l: "length logits = 1" and r: "\<forall>row \<in> set logits. length row = 10"
    by blast
  from l r have "length (hd logits) = 10" by (cases logits) simp_all
  with f l show ?thesis by blast
qed

text \<open>
  A run of C6: ten test examples under a reversing draw, the second run with other
  dropout draws.
\<close>

theorem evaluate_twice_identical_witness:
  "evaluate stub_torch
     (ev_model (evaluate stub_torch stub_model (Some (test_dataloader ten_examples))
        (\<lambda>i. 10 - i) (\<lambda>i. stub_draw)))
     (Some (test_dataloader ten_examples)) (\<lambda>i. 10 - i)
     (\<lambda>i. \<lparr>bert_noise = (), keep = (\<lambda>i j. False)\<rparr>) =
   evaluate stub_torch stub_model (Some (test_dataloader ten_examples)) (\<lambda>i. 10 - i)
     (\<lambda>i. stub_draw)"
  using evaluate_twice_identical [of stub_torch stub_model "Some (test_dataloader ten_examples)"
      "\<lambda>i. 10 - i" "\<lambda>i. stub_draw" "\<lambda>i. \<lparr>bert_noise = (), keep = (\<lambda>i j. False)\<rparr>"]
  by blast

text \<open>
  A run of C9 on a module that is in training mode before the call.
\<close>

theorem evaluate_keeps_parameters_witness:
  "parameters (ev_model (evaluate stub_torch stub_model (Some (test_dataloader ten_examples))
      (\<lambda>i. i) (\<lambda>i. stub_draw))) = parameters stub_model \<and>
   training stub_model \<and>
   \<not> training (ev_model (evaluate stub_torch stub_model (Some (test_dataloader ten_examples))
      (\<lambda>i. i) (\<lambda>i. stub_draw)))"
  using evaluate_keeps_parameters [of stub_torch stub_model "Some (test_dataloader ten_examples)"
      "\<lambda>i. i" "\<lambda>i. stub_draw"]
  by (simp add: stub_model_def BERTBiLSTM_init_def)

end
